theory Spec2Isabelle
  imports Main "HOL-Library.AList"
begin

section \<open>Errors and outcomes\<close>

text \<open>
  Go functions of the controller return \<open>(value, error)\<close>; the model returns \<open>error + value\<close>
  with \<open>Inl\<close> the error. The error values the code builds or compares against:
  \<^item> \<open>ErrNoRows\<close> is \<open>sql.ErrNoRows\<close>;
  \<^item> \<open>Errorf msg\<close> is an error made by \<open>fmt.Errorf\<close> (or any opaque error of a collaborator)
    with message \<open>msg\<close>;
  \<^item> \<open>HTTPError code msg\<close> is \<open>echo.NewHTTPError(code, msg)\<close>;
  \<^item> \<open>Wrapped e msg\<close> is what \<open>errors.Wrapf(e, msg)\<close> of github.com/pkg/errors returns for
    a non-nil \<open>e\<close>.
\<close>

datatype error =
    ErrNoRows
  | Errorf string
  | HTTPError nat string
  | Wrapped error string

text \<open>A run-time panic (index out of range, nil dereference) is not an error value: it
  unwinds through every \<open>if err != nil\<close>.\<close>

datatype failure = Err error | Panic string

section \<open>Formatting and path helpers of the Go standard library\<close>

definition digit :: "nat \<Rightarrow> char" where
  "digit d = char_of (48 + d)"

fun natToDec :: "nat \<Rightarrow> string" where
  "natToDec n = (if n < 10 then [digit n] else natToDec (n div 10) @ [digit (n mod 10)])"

declare natToDec.simps [simp del]

text \<open>\<open>fmt.Sprintf("%d", n)\<close> for a Go \<open>int\<close>.\<close>

definition Sprintf_d :: "int \<Rightarrow> string" where
  "Sprintf_d n = (if n < 0 then CHR ''-'' # natToDec (nat (- n)) else natToDec (nat n))"

text \<open>\<open>filepath.Base\<close> on a Unix build (separator \<open>/\<close>, no volume names): the empty path
  gives \<open>.\<close>, trailing slashes are dropped, the element after the last slash is returned,
  and a path of slashes only gives \<open>/\<close>.\<close>

definition isPathSeparator :: "char \<Rightarrow> bool" where
  "isPathSeparator c = (c = CHR ''/'')"

definition filepath_Base :: "string \<Rightarrow> string" where
  "filepath_Base path =
     (if path = [] then ''.''
      else let stripped = rev (dropWhile isPathSeparator (rev path));
               lastElem = rev (takeWhile (\<lambda>c. \<not> isPathSeparator c) (rev stripped))
           in if lastElem = [] then ''/'' else lastElem)"

text \<open>\<open>strings.ToLower\<close> restricted to ASCII input: \<open>A\<close>..\<open>Z\<close> become \<open>a\<close>..\<open>z\<close>. Go lowers
  by Unicode rune, so the functions of the controller take \<open>ToLower\<close> as a parameter, and
  this ASCII version stands for it at concrete ASCII inputs only.\<close>

definition asciiLower :: "char \<Rightarrow> char" where
  "asciiLower c = (let n = (of_char c :: nat) in if 65 \<le> n \<and> n \<le> 90 then char_of (n + 32) else c)"

definition strings_ToLower :: "string \<Rightarrow> string" where
  "strings_ToLower s = map asciiLower s"

section \<open>The Job document (github.com/cyverse-de/model)\<close>

text \<open>Only the fields the controller reads. \<open>irodsPath\<close> holds the value of the method
  \<open>stepInput.IRODSPath()\<close> and \<open>OutputDirectory\<close> that of \<open>job.OutputDirectory()\<close>. Of the
  container of a step the sources read the field \<open>UID\<close> and no other.\<close>

record StepInput =
  Type :: string
  irodsPath :: string

record JobContainer =
  UID :: int

record StepComponent =
  Container :: JobContainer

record StepConfig =
  Inputs :: "StepInput list"

record Step =
  Component :: StepComponent
  Config :: StepConfig

record Job =
  InvocationID :: string
  Submitter :: string
  UserHome :: string
  OutputDirectory :: string
  Steps :: "Step list"

section \<open>Cluster objects (k8s.io/api), as far as the controller reads or writes them\<close>

type_synonym labels = "(string \<times> string) list"

text \<open>A Go \<open>map[string]string\<close> read at a missing key gives the empty string.\<close>

definition label :: "labels \<Rightarrow> string \<Rightarrow> string" where
  "label ls key = (case map_of ls key of None \<Rightarrow> [] | Some v \<Rightarrow> v)"

record ObjectMeta =
  Name :: string
  Namespace :: string
  Labels :: labels
  CreationTimestamp :: string

text \<open>\<open>intstr.IntOrString\<close>: \<open>intstr.FromString s\<close> has type tag String, \<open>intstr.FromInt n\<close>
  the tag Int.\<close>

datatype IntOrString = FromInt int | FromString string

definition IntVal :: "IntOrString \<Rightarrow> int" where
  "IntVal t = (case t of FromInt n \<Rightarrow> n | FromString s \<Rightarrow> 0)"

definition IntOrString_String :: "IntOrString \<Rightarrow> string" where
  "IntOrString_String t = (case t of FromInt n \<Rightarrow> Sprintf_d n | FromString s \<Rightarrow> s)"

record SecurityContext =
  RunAsUser :: "int option"
  RunAsGroup :: "int option"

text \<open>A container of a pod template: \<open>securityContext\<close> is the pointer
  \<open>container.SecurityContext\<close> (\<open>None\<close> for nil), \<open>ContainerPorts\<close> the \<open>ContainerPort\<close>
  numbers of \<open>container.Ports\<close>.\<close>

record PodContainer =
  ContainerName :: string
  ContainerImage :: string
  ContainerCommand :: "string list"
  ContainerPorts :: "int list"
  securityContext :: "SecurityContext option"

record Deployment = ObjectMeta +
  Containers :: "PodContainer list"

text \<open>A container status is passed through as it is; the model keeps its rendering.\<close>

datatype ContainerStatus = ContainerStatus string

record Pod = ObjectMeta +
  StatusPhase :: string
  StatusMessage :: string
  StatusReason :: string
  StatusContainerStatuses :: "ContainerStatus list"
  StatusInitContainerStatuses :: "ContainerStatus list"

record ConfigMap = ObjectMeta +
  ConfigMapData :: "(string \<times> string) list"

record ServicePort =
  PortName :: string
  Protocol :: string
  PortNumber :: int
  NodePort :: int
  TargetPort :: IntOrString

record Service = ObjectMeta +
  Selector :: labels
  Ports :: "ServicePort list"

text \<open>So is an ingress rule.\<close>

datatype IngressRule = IngressRule string

record IngressServiceBackend =
  BackendName :: string
  BackendPortNumber :: int

record IngressBackend =
  BackendService :: "IngressServiceBackend option"

record Ingress = ObjectMeta +
  SpecRules :: "IngressRule list"
  SpecDefaultBackend :: "IngressBackend option"

record PersistentVolume = ObjectMeta +
  Capacity :: string
  VolumeMode :: string
  AccessModes :: "string list"
  PersistentVolumeReclaimPolicy :: string
  StorageClassName :: string
  Driver :: string
  VolumeHandle :: string
  VolumeAttributes :: "string \<rightharpoonup> string"

section \<open>Path mappings of the remote filesystem driver (incluster/volumes.go)\<close>

record IRODSFSPathMapping =
  IRODSPath :: string
  MappingPath :: string
  ResourceType :: string
  ReadOnly :: bool
  CreateDir :: bool
  IgnoreNotExistError :: bool

section \<open>What the sources use and do not hold\<close>

text \<open>The package \<open>constants\<close> is not among the sources: its values are parameters.\<close>

record constants =
  CSIDriverInputVolumeMountPath :: string
  CSIDriverOutputVolumeMountPath :: string
  CSIDriverLocalMountPath :: string
  CSIDriverDataVolumeNamePrefix :: string
  CSIDriverDataVolumeClaimNamePrefix :: string
  CSIDriverStorageClassName :: string
  CSIDriverName :: string
  FileTransfersPort :: int
  VICEProxyServicePort :: int

text \<open>Library functions and functions of other files of the package, taken as parameters:
  \<open>strings.ToLower\<close>, \<open>json.Marshal\<close> on a slice of path mappings, the method
  \<open>LabelsFromJob\<close> (which asks the Apps service), \<open>IngressName\<close>,
  \<open>common.FixUsername\<close>, \<open>IsAllowed\<close> of the Permissions client (base URL, user,
  analysis id), and the error, if any, of \<open>labels.NewRequirement(key, DoesNotExist, [])\<close>.\<close>

record externals =
  ToLower :: "string \<Rightarrow> string"
  json_Marshal :: "IRODSFSPathMapping list \<Rightarrow> error + string"
  LabelsFromJob :: "Job \<Rightarrow> error + labels"
  IngressName :: "string \<Rightarrow> string \<Rightarrow> string"
  FixUsername :: "string \<Rightarrow> string \<Rightarrow> string"
  IsAllowed :: "string \<Rightarrow> string \<Rightarrow> string \<Rightarrow> error + bool"
  NewRequirementError :: "string \<Rightarrow> error option"

text \<open>The Apps service behind \<open>i.apps\<close>.\<close>

record Apps =
  GetUserID :: "string \<Rightarrow> error + string"
  GetAnalysisIDByExternalID :: "string \<Rightarrow> error + string"
  GetUserIP :: "string \<Rightarrow> error + string"

text \<open>The cluster behind \<open>i.clientset\<close>: the objects it holds, and whether a List or an
  Update call fails.\<close>

datatype kind = KDeployment | KPod | KConfigMap | KService | KIngress

record Clientset =
  clusterDeployments :: "Deployment list"
  clusterPods :: "Pod list"
  clusterConfigMaps :: "ConfigMap list"
  clusterServices :: "Service list"
  clusterIngresses :: "Ingress list"
  listError :: "kind \<Rightarrow> error option"
  updateError :: "kind \<Rightarrow> string \<Rightarrow> error option"

text \<open>The receiver \<open>i *Incluster\<close>.\<close>

record Incluster =
  UseCSIDriver :: bool
  IRODSZone :: string
  UserSuffix :: string
  ViceNamespace :: string
  PermissionsURL :: string
  apps :: Apps
  clientset :: Clientset

section \<open>Volumes (incluster/volumes.go)\<close>

definition errUnknownStepInputType :: "string \<Rightarrow> error" where
  "errUnknownStepInputType t = Errorf (''unknown step input type - '' @ t)"

definition errInputPathCollision :: "string \<Rightarrow> string \<Rightarrow> string \<Rightarrow> error" where
  "errInputPathCollision irods mountPath existingIRODSPath =
     Errorf (''tried to mount an input file '' @ irods @ '' at '' @ mountPath
             @ '' already used by - '' @ existingIRODSPath)"

definition inputMountPath :: "constants \<Rightarrow> string \<Rightarrow> string" where
  "inputMountPath k irods = CSIDriverInputVolumeMountPath k @ ''/'' @ filepath_Base irods"

text \<open>The loop state of \<open>getInputPathMappings\<close>: the slice \<open>mappings\<close> and the map
  \<open>mappingMap\<close> from mount path to remote path.\<close>

type_synonym mappingState = "IRODSFSPathMapping list \<times> (string \<rightharpoonup> string)"

fun inputsLoop ::
  "externals \<Rightarrow> constants \<Rightarrow> StepInput list \<Rightarrow> mappingState \<Rightarrow> error + mappingState" where
  "inputsLoop x k [] st = Inr st"
| "inputsLoop x k (stepInput # rest) (mappings, mappingMap) =
     (let irods = irodsPath stepInput in
      if 0 < length irods then
        (case (if ToLower x (Type stepInput) = ''fileinput'' then Inr ''file''
               else if ToLower x (Type stepInput) = ''multifileselector'' then Inr ''file''
               else if ToLower x (Type stepInput) = ''folderinput'' then Inr ''dir''
               else Inl (errUnknownStepInputType (Type stepInput))) of
           Inl e \<Rightarrow> Inl e
         | Inr resourceType \<Rightarrow>
             (let mountPath = inputMountPath k irods in
              case mappingMap mountPath of
                Some existingIRODSPath \<Rightarrow>
                  Inl (errInputPathCollision irods mountPath existingIRODSPath)
              | None \<Rightarrow>
                  inputsLoop x k rest
                    (mappings @ [\<lparr>IRODSPath = irods, MappingPath = mountPath,
                                  ResourceType = resourceType, ReadOnly = True,
                                  CreateDir = False, IgnoreNotExistError = True\<rparr>],
                     mappingMap(mountPath \<mapsto> irods))))
      else inputsLoop x k rest (mappings, mappingMap))"

fun stepsLoop ::
  "externals \<Rightarrow> constants \<Rightarrow> Step list \<Rightarrow> mappingState \<Rightarrow> error + mappingState" where
  "stepsLoop x k [] st = Inr st"
| "stepsLoop x k (step # rest) st =
     (case inputsLoop x k (Inputs (Config step)) st of
        Inl e \<Rightarrow> Inl e
      | Inr st' \<Rightarrow> stepsLoop x k rest st')"

definition getInputPathMappings ::
  "externals \<Rightarrow> constants \<Rightarrow> Job \<Rightarrow> error + IRODSFSPathMapping list" where
  "getInputPathMappings x k job =
     (case stepsLoop x k (Steps job) ([], Map.empty) of
        Inl e \<Rightarrow> Inl e
      | Inr (mappings, mappingMap) \<Rightarrow> Inr mappings)"

definition getOutputPathMapping :: "constants \<Rightarrow> Job \<Rightarrow> IRODSFSPathMapping" where
  "getOutputPathMapping k job =
     \<lparr>IRODSPath = OutputDirectory job, MappingPath = CSIDriverOutputVolumeMountPath k,
      ResourceType = ''dir'', ReadOnly = False, CreateDir = True, IgnoreNotExistError = True\<rparr>"

definition getHomePathMapping :: "Job \<Rightarrow> IRODSFSPathMapping" where
  "getHomePathMapping job =
     \<lparr>IRODSPath = UserHome job, MappingPath = UserHome job,
      ResourceType = ''dir'', ReadOnly = False, CreateDir = False, IgnoreNotExistError = False\<rparr>"

definition getSharedPathMapping :: "Incluster \<Rightarrow> IRODSFSPathMapping" where
  "getSharedPathMapping i =
     (let sharedHomeFullPath = ''/'' @ IRODSZone i @ ''/home/shared'' in
      \<lparr>IRODSPath = sharedHomeFullPath, MappingPath = sharedHomeFullPath,
       ResourceType = ''dir'', ReadOnly = False, CreateDir = False, IgnoreNotExistError = True\<rparr>)"

definition getCSIDataVolumeHandle :: "constants \<Rightarrow> Job \<Rightarrow> string" where
  "getCSIDataVolumeHandle k job = CSIDriverDataVolumeNamePrefix k @ ''-handle-'' @ InvocationID job"

definition getCSIDataVolumeName :: "constants \<Rightarrow> Job \<Rightarrow> string" where
  "getCSIDataVolumeName k job = CSIDriverDataVolumeNamePrefix k @ ''-'' @ InvocationID job"

definition getCSIDataVolumeLabels :: "externals \<Rightarrow> constants \<Rightarrow> Job \<Rightarrow> error + labels" where
  "getCSIDataVolumeLabels x k job =
     (case LabelsFromJob x job of
        Inl e \<Rightarrow> Inl e
      | Inr ls \<Rightarrow> Inr (AList.update ''volume-name'' (getCSIDataVolumeName k job) ls))"

text \<open>\<open>getPersistentVolumes\<close>. The steps run in the order of the source: input mappings,
  the appended mappings, \<open>json.Marshal\<close>, the labels, and then the struct literal, which
  indexes \<open>job.Steps[0]\<close> and panics on a Job with no step. Without the CSI driver the
  function returns no volume.\<close>

definition getPersistentVolumes ::
  "externals \<Rightarrow> constants \<Rightarrow> Incluster \<Rightarrow> Job \<Rightarrow> failure + PersistentVolume list" where
  "getPersistentVolumes x k i job =
     (if UseCSIDriver i then
        (case getInputPathMappings x k job of
           Inl e \<Rightarrow> Inl (Err e)
         | Inr inputPathMappings \<Rightarrow>
            (let dataPathMappings =
                   inputPathMappings @ [getOutputPathMapping k job]
                   @ (if UserHome job \<noteq> [] then [getHomePathMapping job] else [])
                   @ [getSharedPathMapping i]
             in case json_Marshal x dataPathMappings of
                  Inl e \<Rightarrow> Inl (Err e)
                | Inr dataPathMappingsJSON \<Rightarrow>
                   (case getCSIDataVolumeLabels x k job of
                      Inl e \<Rightarrow> Inl (Err e)
                    | Inr dataVolumeLabels \<Rightarrow>
                       (case Steps job of
                          [] \<Rightarrow> Inl (Panic ''index out of range [0] with length 0'')
                        | step0 # others \<Rightarrow>
                            Inr [\<lparr>Name = getCSIDataVolumeName k job, Namespace = [],
                                  Labels = dataVolumeLabels, CreationTimestamp = [],
                                  Capacity = ''5Gi'', VolumeMode = ''Filesystem'',
                                  AccessModes = [''ReadWriteMany''],
                                  PersistentVolumeReclaimPolicy = ''Retain'',
                                  StorageClassName = CSIDriverStorageClassName k,
                                  Driver = CSIDriverName k,
                                  VolumeHandle = getCSIDataVolumeHandle k job,
                                  VolumeAttributes =
                                    [''client'' \<mapsto> ''irodsfuse'',
                                     ''path_mapping_json'' \<mapsto> dataPathMappingsJSON,
                                     ''no_permission_check'' \<mapsto> ''true'',
                                     ''clientUser'' \<mapsto> Submitter job,
                                     ''uid'' \<mapsto> Sprintf_d (UID (Container (Component step0))),
                                     ''gid'' \<mapsto> Sprintf_d (UID (Container (Component step0)))]\<rparr>]))))
      else Inr [])"

section \<open>The Service of an analysis (incluster/services.go)\<close>




section \<open>Listing cluster objects (incluster/services.go)\<close>

text \<open>A label selector is a conjunction of requirements: a label equal to a value
  (\<open>labels.Set.AsSelector\<close>), or a label that is absent (\<open>selection.DoesNotExist\<close>).\<close>

datatype requirement = Equals string string | DoesNotExist string

record ListOptions =
  LabelSelector :: "requirement list"

text \<open>The calls a function makes to its collaborators, in order: the Apps service, the
  Permissions service, and the cluster API (namespace and list options of a List; namespace,
  object name and labels sent of an Update).\<close>

datatype call =
    CallGetUserID string
  | CallGetAnalysisIDByExternalID string
  | CallGetUserIP string
  | CallIsAllowed string string string
  | CallList kind string ListOptions
  | CallUpdate kind string string labels

type_synonym 'a traced = "'a \<times> call list"

text \<open>\<open>if err != nil { return nil, err }\<close>: the rest runs only on success, and the calls
  made add up.\<close>

definition andThen :: "('e + 'a) traced \<Rightarrow> ('a \<Rightarrow> ('e + 'b) traced) \<Rightarrow> ('e + 'b) traced" where
  "andThen m f =
     (case m of
        (Inl e, t) \<Rightarrow> (Inl e, t)
      | (Inr a, t) \<Rightarrow> (case f a of (r, t') \<Rightarrow> (r, t @ t')))"

definition getListSelector :: "labels \<Rightarrow> requirement list" where
  "getListSelector customLabels =
     map (\<lambda>(key, v). Equals key v) (AList.merge [(''app-type'', ''interactive'')] customLabels)"

fun missingRequirements :: "externals \<Rightarrow> string list \<Rightarrow> requirement list" where
  "missingRequirements x [] = []"
| "missingRequirements x (missingLabel # rest) =
     (case NewRequirementError x missingLabel of
        Some err \<Rightarrow> missingRequirements x rest
      | None \<Rightarrow> DoesNotExist missingLabel # missingRequirements x rest)"

definition getListOptions :: "externals \<Rightarrow> labels \<Rightarrow> string list \<Rightarrow> ListOptions" where
  "getListOptions x customLabels missingLabels =
     \<lparr>LabelSelector = getListSelector customLabels @ missingRequirements x missingLabels\<rparr>"

text \<open>The List call of the cluster API, by its contract: unless the call fails, it returns
  the objects of the namespace whose labels satisfy every requirement of the selector; the
  empty namespace (\<open>metav1.NamespaceAll\<close>) stands for every namespace.\<close>

definition requirementHolds :: "labels \<Rightarrow> requirement \<Rightarrow> bool" where
  "requirementHolds ls r =
     (case r of Equals key v \<Rightarrow> map_of ls key = Some v
              | DoesNotExist key \<Rightarrow> map_of ls key = None)"

definition selected :: "string \<Rightarrow> ListOptions \<Rightarrow> 'a ObjectMeta_scheme \<Rightarrow> bool" where
  "selected namespace opts obj =
     ((namespace = [] \<or> Namespace obj = namespace)
      \<and> list_all (requirementHolds (Labels obj)) (LabelSelector opts))"

definition clusterList ::
  "Clientset \<Rightarrow> kind \<Rightarrow> string \<Rightarrow> ListOptions \<Rightarrow> 'a ObjectMeta_scheme list
   \<Rightarrow> (error + 'a ObjectMeta_scheme list) traced" where
  "clusterList cs kd namespace opts objs =
     ((case listError cs kd of
         Some err \<Rightarrow> Inl err
       | None \<Rightarrow> Inr (filter (selected namespace opts) objs)),
      [CallList kd namespace opts])"

definition deploymentList ::
  "externals \<Rightarrow> Incluster \<Rightarrow> string \<Rightarrow> labels \<Rightarrow> string list \<Rightarrow> (error + Deployment list) traced" where
  "deploymentList x i namespace customLabels missingLabels =
     clusterList (clientset i) KDeployment namespace
       (getListOptions x customLabels missingLabels) (clusterDeployments (clientset i))"

definition podList ::
  "externals \<Rightarrow> Incluster \<Rightarrow> string \<Rightarrow> labels \<Rightarrow> string list \<Rightarrow> (error + Pod list) traced" where
  "podList x i namespace customLabels missingLabels =
     clusterList (clientset i) KPod namespace
       (getListOptions x customLabels missingLabels) (clusterPods (clientset i))"

definition configmapsList ::
  "externals \<Rightarrow> Incluster \<Rightarrow> string \<Rightarrow> labels \<Rightarrow> string list \<Rightarrow> (error + ConfigMap list) traced" where
  "configmapsList x i namespace customLabels missingLabels =
     clusterList (clientset i) KConfigMap namespace
       (getListOptions x customLabels missingLabels) (clusterConfigMaps (clientset i))"

definition serviceList ::
  "externals \<Rightarrow> Incluster \<Rightarrow> string \<Rightarrow> labels \<Rightarrow> string list \<Rightarrow> (error + Service list) traced" where
  "serviceList x i namespace customLabels missingLabels =
     clusterList (clientset i) KService namespace
       (getListOptions x customLabels missingLabels) (clusterServices (clientset i))"

definition ingressList ::
  "externals \<Rightarrow> Incluster \<Rightarrow> string \<Rightarrow> labels \<Rightarrow> string list \<Rightarrow> (error + Ingress list) traced" where
  "ingressList x i namespace customLabels missingLabels =
     clusterList (clientset i) KIngress namespace
       (getListOptions x customLabels missingLabels) (clusterIngresses (clientset i))"

text \<open>\<open>url.Values\<close> is a map from a key to its list of values; the model keeps it as an
  association list. \<open>filterMap\<close> takes \<open>v[0]\<close> of every key, which panics on an empty list.\<close>

type_synonym Values = "(string \<times> string list) list"

fun filterMapLoop :: "Values \<Rightarrow> labels \<Rightarrow> failure + labels" where
  "filterMapLoop [] q = Inr q"
| "filterMapLoop ((key, v) # rest) q =
     (case v of
        [] \<Rightarrow> Inl (Panic ''index out of range [0] with length 0'')
      | v0 # others \<Rightarrow> filterMapLoop rest (AList.update key v0 q))"

definition filterMap :: "Values \<Rightarrow> failure + labels" where
  "filterMap values = filterMapLoop values []"

section \<open>Projections of cluster objects (incluster/services.go)\<close>

record MetaInfo =
  InfoName :: string
  InfoNamespace :: string
  AnalysisName :: string
  AppName :: string
  AppID :: string
  ExternalID :: string
  UserID :: string
  Username :: string
  InfoCreationTimestamp :: string

record DeploymentInfo = MetaInfo +
  Image :: string
  Command :: "string list"
  Port :: int
  User :: int
  Group :: int

text \<open>The loop of \<open>deploymentInfo\<close> over the containers; its state is
  \<open>(user, group, image, port, command)\<close>. For a container named \<open>analysis\<close> it reads
  \<open>Ports[0]\<close> and dereferences \<open>SecurityContext\<close>, \<open>RunAsUser\<close> and \<open>RunAsGroup\<close>.\<close>

fun containersLoop ::
  "PodContainer list \<Rightarrow> int \<times> int \<times> string \<times> int \<times> string list
   \<Rightarrow> failure + int \<times> int \<times> string \<times> int \<times> string list" where
  "containersLoop [] st = Inr st"
| "containersLoop (container # rest) st =
     (if ContainerName container = ''analysis'' then
        (case ContainerPorts container of
           [] \<Rightarrow> Inl (Panic ''index out of range [0] with length 0'')
         | port # others \<Rightarrow>
            (case securityContext container of
               None \<Rightarrow> Inl (Panic ''nil pointer dereference'')
             | Some sc \<Rightarrow>
                (case RunAsUser sc of
                   None \<Rightarrow> Inl (Panic ''nil pointer dereference'')
                 | Some user \<Rightarrow>
                    (case RunAsGroup sc of
                       None \<Rightarrow> Inl (Panic ''nil pointer dereference'')
                     | Some grp \<Rightarrow>
                        containersLoop rest
                          (user, grp, ContainerImage container, port,
                           ContainerCommand container)))))
      else containersLoop rest st)"

definition deploymentInfo :: "Deployment \<Rightarrow> failure + DeploymentInfo" where
  "deploymentInfo deployment =
     (let ls = Labels deployment in
      case containersLoop (Containers deployment) (0, 0, [], 0, []) of
        Inl p \<Rightarrow> Inl p
      | Inr (user, grp, img, port, command) \<Rightarrow>
          Inr \<lparr>InfoName = Name deployment, InfoNamespace = Namespace deployment,
               AnalysisName = label ls ''analysis-name'', AppName = label ls ''app-name'',
               AppID = label ls ''app-id'', ExternalID = label ls ''external-id'',
               UserID = label ls ''user-id'', Username = label ls ''username'',
               InfoCreationTimestamp = CreationTimestamp deployment,
               Image = img, Command = command, Port = port, User = user, Group = grp\<rparr>)"

record PodInfo = MetaInfo +
  Phase :: string
  Message :: string
  Reason :: string
  ContainerStatuses :: "ContainerStatus list"
  InitContainerStatuses :: "ContainerStatus list"

definition podInfo :: "Pod \<Rightarrow> PodInfo" where
  "podInfo pod =
     (let ls = Labels pod in
      \<lparr>InfoName = Name pod, InfoNamespace = Namespace pod,
       AnalysisName = label ls ''analysis-name'', AppName = label ls ''app-name'',
       AppID = label ls ''app-id'', ExternalID = label ls ''external-id'',
       UserID = label ls ''user-id'', Username = label ls ''username'',
       InfoCreationTimestamp = CreationTimestamp pod,
       Phase = StatusPhase pod, Message = StatusMessage pod, Reason = StatusReason pod,
       ContainerStatuses = StatusContainerStatuses pod,
       InitContainerStatuses = StatusInitContainerStatuses pod\<rparr>)"

record ConfigMapInfo = MetaInfo +
  Data :: "(string \<times> string) list"

definition configMapInfo :: "ConfigMap \<Rightarrow> ConfigMapInfo" where
  "configMapInfo cm =
     (let ls = Labels cm in
      \<lparr>InfoName = Name cm, InfoNamespace = Namespace cm,
       AnalysisName = label ls ''analysis-name'', AppName = label ls ''app-name'',
       AppID = label ls ''app-id'', ExternalID = label ls ''external-id'',
       UserID = label ls ''user-id'', Username = label ls ''username'',
       InfoCreationTimestamp = CreationTimestamp cm,
       Data = ConfigMapData cm\<rparr>)"

record ServiceInfoPort =
  InfoPortName :: string
  InfoNodePort :: int
  InfoTargetPort :: int
  InfoTargetPortName :: string
  InfoPort :: int
  InfoProtocol :: string

record ServiceInfo = MetaInfo +
  InfoPorts :: "ServiceInfoPort list"

definition serviceInfo :: "Service \<Rightarrow> ServiceInfo" where
  "serviceInfo svc =
     (let ls = Labels svc in
      \<lparr>InfoName = Name svc, InfoNamespace = Namespace svc,
       AnalysisName = label ls ''analysis-name'', AppName = label ls ''app-name'',
       AppID = label ls ''app-id'', ExternalID = label ls ''external-id'',
       UserID = label ls ''user-id'', Username = label ls ''username'',
       InfoCreationTimestamp = CreationTimestamp svc,
       InfoPorts = map (\<lambda>port. \<lparr>InfoPortName = PortName port, InfoNodePort = NodePort port,
                                 InfoTargetPort = IntVal (TargetPort port),
                                 InfoTargetPortName = IntOrString_String (TargetPort port),
                                 InfoPort = PortNumber port, InfoProtocol = Protocol port\<rparr>)
                       (Ports svc)\<rparr>)"

record IngressInfo = MetaInfo +
  DefaultBackend :: string
  Rules :: "IngressRule list"

text \<open>\<open>ingressInfo\<close> dereferences \<open>ingress.Spec.DefaultBackend\<close> and its \<open>Service\<close>.\<close>

definition ingressInfo :: "Ingress \<Rightarrow> failure + IngressInfo" where
  "ingressInfo ingress =
     (let ls = Labels ingress in
      case SpecDefaultBackend ingress of
        None \<Rightarrow> Inl (Panic ''nil pointer dereference'')
      | Some backend \<Rightarrow>
         (case BackendService backend of
            None \<Rightarrow> Inl (Panic ''nil pointer dereference'')
          | Some service \<Rightarrow>
              Inr \<lparr>InfoName = Name ingress, InfoNamespace = Namespace ingress,
                   AnalysisName = label ls ''analysis-name'', AppName = label ls ''app-name'',
                   AppID = label ls ''app-id'', ExternalID = label ls ''external-id'',
                   UserID = label ls ''user-id'', Username = label ls ''username'',
                   InfoCreationTimestamp = CreationTimestamp ingress,
                   DefaultBackend = BackendName service @ '':''
                                    @ Sprintf_d (BackendPortNumber service),
                   Rules = SpecRules ingress\<rparr>))"

text \<open>The loops \<open>for _, item := range list.Items { append(..., *info(&item)) }\<close>; a panic
  of the projection ends the loop.\<close>

fun infoLoop :: "('a \<Rightarrow> failure + 'b) \<Rightarrow> 'a list \<Rightarrow> failure + 'b list" where
  "infoLoop info [] = Inr []"
| "infoLoop info (item # rest) =
     (case info item of
        Inl p \<Rightarrow> Inl p
      | Inr b \<Rightarrow> (case infoLoop info rest of Inl p \<Rightarrow> Inl p | Inr bs \<Rightarrow> Inr (b # bs)))"

text \<open>An error of the List call is returned as it is.\<close>

definition listed :: "(error + 'a) traced \<Rightarrow> (failure + 'a) traced" where
  "listed m = (case m of (Inl err, t) \<Rightarrow> (Inl (Err err), t) | (Inr a, t) \<Rightarrow> (Inr a, t))"

definition getFilteredDeployments ::
  "externals \<Rightarrow> Incluster \<Rightarrow> labels \<Rightarrow> (failure + DeploymentInfo list) traced" where
  "getFilteredDeployments x i flt =
     andThen (listed (deploymentList x i (ViceNamespace i) flt []))
       (\<lambda>items. (infoLoop deploymentInfo items, []))"

definition getFilteredPods ::
  "externals \<Rightarrow> Incluster \<Rightarrow> labels \<Rightarrow> (failure + PodInfo list) traced" where
  "getFilteredPods x i flt =
     andThen (listed (podList x i (ViceNamespace i) flt []))
       (\<lambda>items. (Inr (map podInfo items), []))"

definition getFilteredConfigMaps ::
  "externals \<Rightarrow> Incluster \<Rightarrow> labels \<Rightarrow> (failure + ConfigMapInfo list) traced" where
  "getFilteredConfigMaps x i flt =
     andThen (listed (configmapsList x i (ViceNamespace i) flt []))
       (\<lambda>items. (Inr (map configMapInfo items), []))"

definition getFilteredServices ::
  "externals \<Rightarrow> Incluster \<Rightarrow> labels \<Rightarrow> (failure + ServiceInfo list) traced" where
  "getFilteredServices x i flt =
     andThen (listed (serviceList x i (ViceNamespace i) flt []))
       (\<lambda>items. (Inr (map serviceInfo items), []))"

definition getFilteredIngresses ::
  "externals \<Rightarrow> Incluster \<Rightarrow> labels \<Rightarrow> (failure + IngressInfo list) traced" where
  "getFilteredIngresses x i flt =
     andThen (listed (ingressList x i (ViceNamespace i) flt []))
       (\<lambda>items. (infoLoop ingressInfo items, []))"

record ResourceInfo =
  Deployments :: "DeploymentInfo list"
  Pods :: "PodInfo list"
  ConfigMaps :: "ConfigMapInfo list"
  Services :: "ServiceInfo list"
  Ingresses :: "IngressInfo list"

definition fixUsername :: "externals \<Rightarrow> Incluster \<Rightarrow> string \<Rightarrow> string" where
  "fixUsername x i username = FixUsername x username (UserSuffix i)"

definition doResourceListing ::
  "externals \<Rightarrow> Incluster \<Rightarrow> labels \<Rightarrow> (failure + ResourceInfo) traced" where
  "doResourceListing x i flt =
     andThen (getFilteredDeployments x i flt) (\<lambda>deployments.
     andThen (getFilteredPods x i flt) (\<lambda>pods.
     andThen (getFilteredConfigMaps x i flt) (\<lambda>cms.
     andThen (getFilteredServices x i flt) (\<lambda>svcs.
     andThen (getFilteredIngresses x i flt) (\<lambda>ingresses.
       (Inr \<lparr>Deployments = deployments, Pods = pods, ConfigMaps = cms,
             Services = svcs, Ingresses = ingresses\<rparr>, []))))))"

section \<open>The inspection handlers (incluster/services.go)\<close>

text \<open>The echo context of a request: its path parameters and its query values.
  \<open>c.Param\<close> and \<open>c.QueryParam\<close> give the empty string for a name that is not there.\<close>

record Context =
  pathParams :: "(string \<times> string) list"
  queryValues :: Values

definition Param :: "Context \<Rightarrow> string \<Rightarrow> string" where
  "Param c name = label (pathParams c) name"

definition QueryParam :: "Context \<Rightarrow> string \<Rightarrow> string" where
  "QueryParam c name =
     (case map_of (queryValues c) name of
        None \<Rightarrow> []
      | Some vs \<Rightarrow> (case vs of [] \<Rightarrow> [] | v0 # others \<Rightarrow> v0))"

text \<open>What a handler writes with \<open>c.JSON(status, body)\<close>.\<close>

datatype body =
    DeploymentsBody "DeploymentInfo list"
  | PodsBody "PodInfo list"
  | ConfigMapsBody "ConfigMapInfo list"
  | ServicesBody "ServiceInfo list"
  | IngressesBody "IngressInfo list"
  | ResourceBody ResourceInfo

datatype response = JSON nat body

text \<open>\<open>err.Error()\<close>.\<close>

fun Error :: "error \<Rightarrow> string" where
  "Error ErrNoRows = ''sql: no rows in result set''"
| "Error (Errorf msg) = msg"
| "Error (HTTPError code msg) = ''code='' @ natToDec code @ '', message='' @ msg"
| "Error (Wrapped e msg) = msg @ '': '' @ Error e"

text \<open>\<open>echo.NewHTTPError(http.StatusInternalServerError, err.Error())\<close> for a returned
  error; a panic is not an error value and passes.\<close>

definition internalServerError :: "failure \<Rightarrow> failure" where
  "internalServerError f =
     (case f of Err err \<Rightarrow> Err (HTTPError 500 (Error err)) | Panic p \<Rightarrow> Panic p)"

definition FilterableDeploymentsHandler ::
  "externals \<Rightarrow> Incluster \<Rightarrow> Context \<Rightarrow> (failure + response) traced" where
  "FilterableDeploymentsHandler x i c =
     (case filterMap (queryValues c) of
        Inl p \<Rightarrow> (Inl p, [])
      | Inr flt \<Rightarrow>
          andThen (getFilteredDeployments x i flt)
            (\<lambda>deployments. (Inr (JSON 200 (DeploymentsBody deployments)), [])))"

definition FilterablePodsHandler ::
  "externals \<Rightarrow> Incluster \<Rightarrow> Context \<Rightarrow> (failure + response) traced" where
  "FilterablePodsHandler x i c =
     (case filterMap (queryValues c) of
        Inl p \<Rightarrow> (Inl p, [])
      | Inr flt \<Rightarrow>
          andThen (getFilteredPods x i flt)
            (\<lambda>pods. (Inr (JSON 200 (PodsBody pods)), [])))"

definition FilterableConfigMapsHandler ::
  "externals \<Rightarrow> Incluster \<Rightarrow> Context \<Rightarrow> (failure + response) traced" where
  "FilterableConfigMapsHandler x i c =
     (case filterMap (queryValues c) of
        Inl p \<Rightarrow> (Inl p, [])
      | Inr flt \<Rightarrow>
          andThen (getFilteredConfigMaps x i flt)
            (\<lambda>cms. (Inr (JSON 200 (ConfigMapsBody cms)), [])))"

definition FilterableServicesHandler ::
  "externals \<Rightarrow> Incluster \<Rightarrow> Context \<Rightarrow> (failure + response) traced" where
  "FilterableServicesHandler x i c =
     (case filterMap (queryValues c) of
        Inl p \<Rightarrow> (Inl p, [])
      | Inr flt \<Rightarrow>
          andThen (getFilteredServices x i flt)
            (\<lambda>svcs. (Inr (JSON 200 (ServicesBody svcs)), [])))"

definition FilterableIngressesHandler ::
  "externals \<Rightarrow> Incluster \<Rightarrow> Context \<Rightarrow> (failure + response) traced" where
  "FilterableIngressesHandler x i c =
     (case filterMap (queryValues c) of
        Inl p \<Rightarrow> (Inl p, [])
      | Inr flt \<Rightarrow>
          andThen (getFilteredIngresses x i flt)
            (\<lambda>ingresses. (Inr (JSON 200 (IngressesBody ingresses)), [])))"

definition AdminDescribeAnalysisHandler ::
  "externals \<Rightarrow> Incluster \<Rightarrow> Context \<Rightarrow> (failure + response) traced" where
  "AdminDescribeAnalysisHandler x i c =
     (let host = Param c ''host'' in
      case doResourceListing x i [(''subdomain'', host)] of
        (Inl f, t) \<Rightarrow> (Inl (internalServerError f), t)
      | (Inr listing, t) \<Rightarrow> (Inr (JSON 200 (ResourceBody listing)), t))"

definition DescribeAnalysisHandler ::
  "externals \<Rightarrow> Incluster \<Rightarrow> Context \<Rightarrow> (failure + response) traced" where
  "DescribeAnalysisHandler x i c =
     (let host = Param c ''host'';
          user = QueryParam c ''user''
      in
      if user = [] then
        (Inl (Err (HTTPError 400 ''user query parameter must be set'')), [])
      else
        (let fixedUser = fixUsername x i user in
         case GetUserID (apps i) fixedUser of
           Inl err \<Rightarrow>
             (if err = ErrNoRows
              then Inl (Err (HTTPError 404 (''user '' @ fixedUser @ '' not found'')))
              else Inl (Err err),
              [CallGetUserID fixedUser])
         | Inr userID \<Rightarrow>
            (case doResourceListing x i [(''subdomain'', host)] of
               (Inl f, t) \<Rightarrow> (Inl f, CallGetUserID fixedUser # t)
             | (Inr listing, t) \<Rightarrow>
                (case Deployments listing of
                   [] \<Rightarrow> (Inr (JSON 200 (ResourceBody listing)), CallGetUserID fixedUser # t)
                 | deployment0 # others \<Rightarrow>
                    (let externalID = ExternalID deployment0 in
                     case GetAnalysisIDByExternalID (apps i) externalID of
                       Inl err \<Rightarrow>
                         (Inl (Err err),
                          CallGetUserID fixedUser # t @ [CallGetAnalysisIDByExternalID externalID])
                     | Inr analysisID \<Rightarrow>
                        (case IsAllowed x (PermissionsURL i) user analysisID of
                           Inl err \<Rightarrow>
                             (Inl (Err err),
                              CallGetUserID fixedUser # t
                              @ [CallGetAnalysisIDByExternalID externalID,
                                 CallIsAllowed (PermissionsURL i) user analysisID])
                         | Inr allowed \<Rightarrow>
                             (if \<not> allowed
                              then Inl (Err (HTTPError 403
                                     (''user '' @ user @ '' cannot access analysis '' @ analysisID)))
                              else Inr (JSON 200 (ResourceBody listing)),
                              CallGetUserID fixedUser # t
                              @ [CallGetAnalysisIDByExternalID externalID,
                                 CallIsAllowed (PermissionsURL i) user analysisID])))))))"

definition FilterableResourcesHandler ::
  "externals \<Rightarrow> Incluster \<Rightarrow> Context \<Rightarrow> (failure + response) traced" where
  "FilterableResourcesHandler x i c =
     (let user = QueryParam c ''user'' in
      if user = [] then
        (Inl (Err (HTTPError 400 ''user query parameter must be set'')), [])
      else
        (let user = fixUsername x i user in
         case GetUserID (apps i) user of
           Inl err \<Rightarrow>
             (if err = ErrNoRows
              then Inl (Err (HTTPError 404 (''user '' @ user @ '' not found'')))
              else Inl (Err (HTTPError 500 (Error err))),
              [CallGetUserID user])
         | Inr userID \<Rightarrow>
            (case filterMap (queryValues c) of
               Inl p \<Rightarrow> (Inl p, [CallGetUserID user])
             | Inr flt \<Rightarrow>
                (let flt = AList.delete ''user'' flt;
                     flt = AList.update ''user-id'' userID flt
                 in case doResourceListing x i flt of
                      (Inl f, t) \<Rightarrow> (Inl (internalServerError f), CallGetUserID user # t)
                    | (Inr listing, t) \<Rightarrow>
                        (Inr (JSON 200 (ResourceBody listing)), CallGetUserID user # t)))))"

definition AdminFilterableResourcesHandler ::
  "externals \<Rightarrow> Incluster \<Rightarrow> Context \<Rightarrow> (failure + response) traced" where
  "AdminFilterableResourcesHandler x i c =
     (case filterMap (queryValues c) of
        Inl p \<Rightarrow> (Inl p, [])
      | Inr flt \<Rightarrow>
         (case doResourceListing x i flt of
            (Inl f, t) \<Rightarrow> (Inl (internalServerError f), t)
          | (Inr listing, t) \<Rightarrow> (Inr (JSON 200 (ResourceBody listing)), t)))"

section \<open>The label reconciler (incluster/services.go)\<close>

text \<open>The three \<open>populate\<close> functions return the labels (the Go map is updated in place)
  and, where the source does, an error.\<close>

definition populateAnalysisID :: "Incluster \<Rightarrow> labels \<Rightarrow> (labels \<times> error option) traced" where
  "populateAnalysisID i existingLabels =
     (case map_of existingLabels ''analysis-id'' of
        Some present \<Rightarrow> ((existingLabels, None), [])
      | None \<Rightarrow>
         (case map_of existingLabels ''external-id'' of
            None \<Rightarrow> ((existingLabels, Some (Errorf ''missing external-id key'')), [])
          | Some externalID \<Rightarrow>
             (case GetAnalysisIDByExternalID (apps i) externalID of
                Inl err \<Rightarrow>
                  ((existingLabels, None), [CallGetAnalysisIDByExternalID externalID])
              | Inr analysisID \<Rightarrow>
                  ((AList.update ''analysis-id'' analysisID existingLabels, None),
                   [CallGetAnalysisIDByExternalID externalID]))))"

definition populateSubdomain :: "externals \<Rightarrow> labels \<Rightarrow> labels" where
  "populateSubdomain x existingLabels =
     (case map_of existingLabels ''subdomain'' of
        Some present \<Rightarrow> existingLabels
      | None \<Rightarrow>
         (case map_of existingLabels ''external-id'' of
            None \<Rightarrow> existingLabels
          | Some externalID \<Rightarrow>
             (case map_of existingLabels ''user-id'' of
                None \<Rightarrow> existingLabels
              | Some userID \<Rightarrow>
                  AList.update ''subdomain'' (IngressName x userID externalID) existingLabels)))"

definition populateLoginIP :: "Incluster \<Rightarrow> labels \<Rightarrow> (labels \<times> error option) traced" where
  "populateLoginIP i existingLabels =
     (case map_of existingLabels ''login-ip'' of
        Some present \<Rightarrow> ((existingLabels, None), [])
      | None \<Rightarrow>
         (case map_of existingLabels ''user-id'' of
            None \<Rightarrow> ((existingLabels, None), [])
          | Some userID \<Rightarrow>
             (case GetUserIP (apps i) userID of
                Inl err \<Rightarrow> ((existingLabels, Some err), [CallGetUserIP userID])
              | Inr ipAddr \<Rightarrow>
                  ((AList.update ''login-ip'' ipAddr existingLabels, None),
                   [CallGetUserIP userID]))))"

text \<open>\<open>errors = append(errors, err)\<close> under \<open>if err != nil\<close>.\<close>

definition appendError :: "error list \<Rightarrow> error option \<Rightarrow> error list" where
  "appendError errors err = (case err of None \<Rightarrow> errors | Some e \<Rightarrow> errors @ [e])"

text \<open>The loop body that \<open>relabelDeployments\<close>, \<open>relabelConfigMaps\<close>, \<open>relabelServices\<close> and
  \<open>relabelIngresses\<close> share: the three \<open>populate\<close> steps, then the Update of the object
  with the new labels through the client of its kind.\<close>

fun relabelLoop ::
  "externals \<Rightarrow> Incluster \<Rightarrow> kind \<Rightarrow> 'a ObjectMeta_scheme list \<Rightarrow> error list
   \<Rightarrow> (error list) traced" where
  "relabelLoop x i kd [] errors = (errors, [])"
| "relabelLoop x i kd (obj # rest) errors =
     (let existingLabels = Labels obj;
          existingLabels = populateSubdomain x existingLabels
      in case populateLoginIP i existingLabels of
           ((existingLabels, err), t1) \<Rightarrow>
            (let errors = appendError errors err in
             case populateAnalysisID i existingLabels of
               ((existingLabels, err), t2) \<Rightarrow>
                (let errors = appendError errors err;
                     errors = appendError errors (updateError (clientset i) kd (Name obj))
                 in case relabelLoop x i kd rest errors of
                      (errors, t3) \<Rightarrow>
                        (errors,
                         t1 @ t2 @ [CallUpdate kd (ViceNamespace i) (Name obj) existingLabels]
                         @ t3))))"

definition relabelDeployments :: "externals \<Rightarrow> Incluster \<Rightarrow> (error list) traced" where
  "relabelDeployments x i =
     (case deploymentList x i (ViceNamespace i) [] [''subdomain''] of
        (Inl err, t) \<Rightarrow> ([err], t)
      | (Inr deployments, t) \<Rightarrow>
          (case relabelLoop x i KDeployment deployments [] of (errors, t') \<Rightarrow> (errors, t @ t')))"

definition relabelConfigMaps :: "externals \<Rightarrow> Incluster \<Rightarrow> (error list) traced" where
  "relabelConfigMaps x i =
     (case configmapsList x i (ViceNamespace i) [] [''subdomain''] of
        (Inl err, t) \<Rightarrow> ([err], t)
      | (Inr cms, t) \<Rightarrow>
          (case relabelLoop x i KConfigMap cms [] of (errors, t') \<Rightarrow> (errors, t @ t')))"

definition relabelServices :: "externals \<Rightarrow> Incluster \<Rightarrow> (error list) traced" where
  "relabelServices x i =
     (case serviceList x i (ViceNamespace i) [] [''subdomain''] of
        (Inl err, t) \<Rightarrow> ([err], t)
      | (Inr svcs, t) \<Rightarrow>
          (case relabelLoop x i KService svcs [] of (errors, t') \<Rightarrow> (errors, t @ t')))"

definition relabelIngresses :: "externals \<Rightarrow> Incluster \<Rightarrow> (error list) traced" where
  "relabelIngresses x i =
     (case ingressList x i (ViceNamespace i) [] [''subdomain''] of
        (Inl err, t) \<Rightarrow> ([err], t)
      | (Inr ingresses, t) \<Rightarrow>
          (case relabelLoop x i KIngress ingresses [] of (errors, t') \<Rightarrow> (errors, t @ t')))"

definition ApplyAsyncLabels :: "externals \<Rightarrow> Incluster \<Rightarrow> (error list) traced" where
  "ApplyAsyncLabels x i =
     (case relabelDeployments x i of (labelDepsErrors, t1) \<Rightarrow>
      case relabelConfigMaps x i of (labelCMErrors, t2) \<Rightarrow>
      case relabelServices x i of (labelSVCErrors, t3) \<Rightarrow>
      case relabelIngresses x i of (labelIngressesErrors, t4) \<Rightarrow>
        (labelDepsErrors @ labelCMErrors @ labelSVCErrors @ labelIngressesErrors,
         t1 @ t2 @ t3 @ t4))"

section \<open>The status publisher\<close>

text \<open>\<open>errors.Wrapf\<close> of github.com/pkg/errors annotates an error with a message; by its
  documentation, \<open>Wrapf\<close> of a nil error is nil. A Go \<open>error\<close> that may be nil is an
  \<open>error option\<close>.\<close>

definition Wrapf :: "error option \<Rightarrow> string \<Rightarrow> error option" where
  "Wrapf err msg = (case err of None \<Rightarrow> None | Some e \<Rightarrow> Some (Wrapped e msg))"

datatype JobState = FailedState | SucceededState | RunningState

text \<open>Modelled from the spec: the constants \<open>FailedState\<close>, \<open>SucceededState\<close> and
  \<open>RunningState\<close> of the package \<open>messaging\<close> are not among the sources; the specification
  gives the states of the status document as \<open>Failed\<close>, \<open>Succeeded\<close> and \<open>Running\<close>.\<close>

definition JobState_String :: "JobState \<Rightarrow> string" where
  "JobState_String s =
     (case s of FailedState \<Rightarrow> ''Failed'' | SucceededState \<Rightarrow> ''Succeeded''
              | RunningState \<Rightarrow> ''Running'')"

text \<open>The document \<open>AnalysisStatus\<close>; \<open>MessageText\<close> is its field \<open>Message\<close>.\<close>

record AnalysisStatus =
  Hostname :: string
  State :: JobState
  MessageText :: string

record ParsedURL =
  Scheme :: string
  Host :: string
  Path :: string

record HTTPRequest =
  Method :: string
  RequestURL :: string
  RequestBody :: string
  Header :: "(string \<times> string) list"

text \<open>An HTTP response: its status code, and what \<open>%s\<close> prints for its body.\<close>

record HTTPResponse =
  StatusCode :: int
  BodyText :: string

text \<open>The library calls of \<open>postStatus\<close>, as parameters: \<open>os.Hostname\<close>, \<open>url.Parse\<close>,
  \<open>URL.String\<close>, \<open>path.Join\<close>, \<open>json.Marshal\<close> of the status, the error (if any) of
  \<open>http.NewRequestWithContext\<close> for a method, URL and body, and \<open>httpClient.Do\<close>.\<close>

record httpLibrary =
  os_Hostname :: "error + string"
  url_Parse :: "string \<Rightarrow> error + ParsedURL"
  URL_String :: "ParsedURL \<Rightarrow> string"
  path_Join :: "string \<Rightarrow> string \<Rightarrow> string"
  json_MarshalStatus :: "AnalysisStatus \<Rightarrow> error + string"
  http_NewRequestError :: "string \<Rightarrow> string \<Rightarrow> string \<Rightarrow> error option"
  httpClient_Do :: "HTTPRequest \<Rightarrow> error + HTTPResponse"

record JSLPublisher =
  statusURL :: string

definition hostname :: "httpLibrary \<Rightarrow> string" where
  "hostname lib = (case os_Hostname lib of Inl err \<Rightarrow> [] | Inr h \<Rightarrow> h)"

text \<open>\<open>postStatus\<close> returns a Go \<open>error\<close>: \<open>None\<close> is nil, the call succeeded. The variable
  \<open>err\<close> of the source is assigned by every library call; after \<open>httpClient.Do\<close> it holds
  the error of that call, and it is this \<open>err\<close> that the status-code branch wraps.\<close>

definition postStatus ::
  "httpLibrary \<Rightarrow> JSLPublisher \<Rightarrow> string \<Rightarrow> string \<Rightarrow> JobState \<Rightarrow> error option" where
  "postStatus lib j jobID msg jobState =
     (let status = \<lparr>Hostname = hostname lib, State = jobState, MessageText = msg\<rparr> in
      case url_Parse lib (statusURL j) of
        Inl parseErr \<Rightarrow>
          Wrapf (Some parseErr)
            (''error parsing URL &{'' @ statusURL j @ ''} for job '' @ jobID
             @ '' before posting '' @ JobState_String jobState @ '' status'')
      | Inr u0 \<Rightarrow>
         (let u = u0\<lparr>Path := path_Join lib jobID ''status''\<rparr> in
          case json_MarshalStatus lib status of
            Inl marshalErr \<Rightarrow>
              Wrapf (Some marshalErr)
                (''error marshalling JSON for analysis '' @ jobID @ '' before posting ''
                 @ JobState_String jobState @ '' status'')
          | Inr js \<Rightarrow>
             (case http_NewRequestError lib ''POST'' (URL_String lib u) js of
                Some requestErr \<Rightarrow>
                  Wrapf (Some requestErr)
                    (''error returned posting '' @ JobState_String jobState
                     @ '' status for job '' @ jobID @ '' to '' @ URL_String lib u)
              | None \<Rightarrow>
                 (let req = \<lparr>Method = ''POST'', RequestURL = URL_String lib u, RequestBody = js,
                             Header = [(''content-type'', ''application/json'')]\<rparr>;
                      result = httpClient_Do lib req;
                      err = (case result of Inl doErr \<Rightarrow> Some doErr | Inr response \<Rightarrow> None)
                  in case result of
                       Inl doErr \<Rightarrow>
                         Wrapf err
                           (''error returned posting '' @ JobState_String jobState
                            @ '' status for job '' @ jobID @ '' to '' @ URL_String lib u)
                     | Inr response \<Rightarrow>
                         (if StatusCode response < 200 \<or> StatusCode response > 399 then
                            Wrapf err
                              (''error status code '' @ Sprintf_d (StatusCode response)
                               @ '' returned after posting '' @ JobState_String jobState
                               @ '' status for job '' @ jobID @ '' to '' @ URL_String lib u
                               @ '': '' @ BodyText response)
                          else None)))))"

definition Fail :: "httpLibrary \<Rightarrow> JSLPublisher \<Rightarrow> string \<Rightarrow> string \<Rightarrow> error option" where
  "Fail lib j jobID msg = postStatus lib j jobID msg FailedState"

definition Success :: "httpLibrary \<Rightarrow> JSLPublisher \<Rightarrow> string \<Rightarrow> string \<Rightarrow> error option" where
  "Success lib j jobID msg = postStatus lib j jobID msg SucceededState"

definition Running :: "httpLibrary \<Rightarrow> JSLPublisher \<Rightarrow> string \<Rightarrow> string \<Rightarrow> error option" where
  "Running lib j jobID msg = postStatus lib j jobID msg RunningState"

section \<open>Vocabulary for the properties of volume synthesis\<close>

text \<open>The inputs of a Job in the order the two nested loops walk them, and those of them
  that have a remote path.\<close>

definition allInputs :: "Job \<Rightarrow> StepInput list" where
  "allInputs job = concat (map (\<lambda>step. Inputs (Config step)) (Steps job))"

definition hasPath :: "StepInput \<Rightarrow> bool" where
  "hasPath a = (irodsPath a \<noteq> [])"

definition pathInputs :: "Job \<Rightarrow> StepInput list" where
  "pathInputs job = filter hasPath (allInputs job)"

text \<open>The input types the specification names, compared as the code compares them (after
  \<open>ToLower\<close>), and the resource type the specification gives each.\<close>

definition recognised :: "externals \<Rightarrow> StepInput \<Rightarrow> bool" where
  "recognised x a = (ToLower x (Type a) = ''fileinput'' \<or> ToLower x (Type a) = ''multifileselector''
                     \<or> ToLower x (Type a) = ''folderinput'')"

definition specResourceType :: "externals \<Rightarrow> StepInput \<Rightarrow> string" where
  "specResourceType x a =
     (if ToLower x (Type a) = ''fileinput'' \<or> ToLower x (Type a) = ''multifileselector''
      then ''file'' else ''dir'')"

definition mountOf :: "constants \<Rightarrow> StepInput \<Rightarrow> string" where
  "mountOf k a = inputMountPath k (irodsPath a)"

definition inputMapping :: "externals \<Rightarrow> constants \<Rightarrow> StepInput \<Rightarrow> IRODSFSPathMapping" where
  "inputMapping x k a =
     \<lparr>IRODSPath = irodsPath a, MappingPath = mountOf k a,
      ResourceType = specResourceType x a, ReadOnly = True,
      CreateDir = False, IgnoreNotExistError = True\<rparr>"

text \<open>An attribute of the one volume \<open>getPersistentVolumes\<close> returns, if it returns one.\<close>

definition volumeAttribute :: "failure + PersistentVolume list \<Rightarrow> string \<Rightarrow> string option" where
  "volumeAttribute result key =
     (case result of
        Inl f \<Rightarrow> None
      | Inr pvs \<Rightarrow> (case pvs of [pv] \<Rightarrow> VolumeAttributes pv key | _ \<Rightarrow> None))"

section \<open>Vocabulary for the properties of the handlers\<close>

text \<open>The first value a query string gives a key, if it gives one.\<close>

definition firstValue :: "Values \<Rightarrow> string \<rightharpoonup> string" where
  "firstValue values key =
     (case map_of values key of
        None \<Rightarrow> None
      | Some vs \<Rightarrow> (case vs of [] \<Rightarrow> None | v0 # others \<Rightarrow> Some v0))"

text \<open>A call to the Permissions service, or the Apps lookup that prepares it.\<close>

definition isPermissionCheck :: "call \<Rightarrow> bool" where
  "isPermissionCheck cl =
     (case cl of CallIsAllowed baseURL user analysisID \<Rightarrow> True
               | CallGetAnalysisIDByExternalID externalID \<Rightarrow> True
               | _ \<Rightarrow> False)"

section \<open>Vocabulary for the properties of the reconciler\<close>

text \<open>An object of the namespace (of any namespace, when the namespace given is empty)
  that bears \<open>app-type=interactive\<close> and has no \<open>subdomain\<close> label.\<close>

definition lacksSubdomain :: "string \<Rightarrow> 'a ObjectMeta_scheme \<Rightarrow> bool" where
  "lacksSubdomain namespace obj =
     ((namespace = [] \<or> Namespace obj = namespace)
      \<and> map_of (Labels obj) ''app-type'' = Some ''interactive''
      \<and> map_of (Labels obj) ''subdomain'' = None)"

text \<open>The labels after the three \<open>populate\<close> steps of the loop body.\<close>

definition relabelled :: "externals \<Rightarrow> Incluster \<Rightarrow> labels \<Rightarrow> labels" where
  "relabelled x i ls =
     fst (fst (populateAnalysisID i (fst (fst (populateLoginIP i (populateSubdomain x ls))))))"

definition isUpdate :: "call \<Rightarrow> bool" where
  "isUpdate cl = (case cl of CallUpdate kd namespace name ls \<Rightarrow> True | _ \<Rightarrow> False)"

text \<open>One Update per object lacking \<open>subdomain\<close>, with the relabelled labels.\<close>

definition sweepUpdates ::
  "externals \<Rightarrow> Incluster \<Rightarrow> kind \<Rightarrow> 'a ObjectMeta_scheme list \<Rightarrow> call list" where
  "sweepUpdates x i kd objs =
     map (\<lambda>obj. CallUpdate kd (ViceNamespace i) (Name obj) (relabelled x i (Labels obj)))
       (filter (lacksSubdomain (ViceNamespace i)) objs)"

section \<open>Concrete inputs\<close>

text \<open>Stand-ins for the parameters, and Jobs, used where a property is evaluated at a
  concrete input. All strings here are ASCII.\<close>

definition exampleConstants :: constants where
  "exampleConstants =
     \<lparr>CSIDriverInputVolumeMountPath = ''/input'', CSIDriverOutputVolumeMountPath = ''/output'',
      CSIDriverLocalMountPath = ''/data'', CSIDriverDataVolumeNamePrefix = ''csi-data-volume'',
      CSIDriverDataVolumeClaimNamePrefix = ''csi-data-volume-claim'',
      CSIDriverStorageClassName = ''irods-sc'', CSIDriverName = ''irods.csi.cyverse.org'',
      FileTransfersPort = 60001, VICEProxyServicePort = 60000\<rparr>"

definition exampleExternals :: externals where
  "exampleExternals =
     \<lparr>ToLower = strings_ToLower,
      json_Marshal = (\<lambda>ms. Inr (concat (map (\<lambda>m. ''<'' @ MappingPath m @ ''>'') ms))),
      LabelsFromJob = (\<lambda>job. Inr [(''app-type'', ''interactive''), (''external-id'', InvocationID job)]),
      IngressName = (\<lambda>userID externalID. ''a'' @ userID @ externalID),
      FixUsername = (\<lambda>username suffix. if suffix = [] \<or> suffix = drop (length username - length suffix) username
                                        then username else username @ suffix),
      IsAllowed = (\<lambda>baseURL user analysisID. Inr (user = ''alice'')),
      NewRequirementError = (\<lambda>key. None)\<rparr>"

definition exampleInput :: "string \<Rightarrow> string \<Rightarrow> StepInput" where
  "exampleInput t p = \<lparr>Type = t, irodsPath = p\<rparr>"

definition exampleStep :: "int \<Rightarrow> StepInput list \<Rightarrow> Step" where
  "exampleStep uid ins =
     \<lparr>Component = \<lparr>Container = \<lparr>UID = uid\<rparr>\<rparr>, Config = \<lparr>Inputs = ins\<rparr>\<rparr>"

definition exampleJob :: "Step list \<Rightarrow> Job" where
  "exampleJob steps =
     \<lparr>InvocationID = ''abc123'', Submitter = ''alice'', UserHome = ''/zone/home/alice'',
      OutputDirectory = ''/zone/home/alice/out'', Steps = steps\<rparr>"

definition exampleApps :: Apps where
  "exampleApps =
     \<lparr>GetUserID = (\<lambda>username. if username = ''alice@example.org'' then Inr ''uid-alice''
                               else if username = ''bob@example.org'' then Inr ''uid-bob''
                               else Inl ErrNoRows),
      GetAnalysisIDByExternalID = (\<lambda>externalID. if externalID = ''abc123'' then Inr ''analysis-1''
                                               else Inl ErrNoRows),
      GetUserIP = (\<lambda>userID. if userID = ''uid-alice'' then Inr ''10.0.0.7'' else Inl ErrNoRows)\<rparr>"

definition emptyClientset :: Clientset where
  "emptyClientset =
     \<lparr>clusterDeployments = [], clusterPods = [], clusterConfigMaps = [],
      clusterServices = [], clusterIngresses = [],
      listError = (\<lambda>kd. None), updateError = (\<lambda>kd name. None)\<rparr>"

definition exampleIncluster :: "Clientset \<Rightarrow> Incluster" where
  "exampleIncluster cs =
     \<lparr>UseCSIDriver = True, IRODSZone = ''zone'', UserSuffix = ''@example.org'',
      ViceNamespace = ''vice-apps'', PermissionsURL = ''http://permissions'',
      apps = exampleApps, clientset = cs\<rparr>"

text \<open>A Job of two steps with a file, a multi-file and a folder input.\<close>

definition jobMixedTypes :: Job where
  "jobMixedTypes =
     exampleJob [exampleStep 1000
                   [exampleInput ''fileinput'' ''/zone/home/alice/in.txt'',
                    exampleInput ''MultiFileSelector'' ''/zone/home/alice/reads.fq''],
                 exampleStep 1000
                   [exampleInput ''folderinput'' ''/zone/home/alice/dir/'']]"

text \<open>A Job whose second input has a type the controller does not know.\<close>

definition jobUnknownType :: Job where
  "jobUnknownType =
     exampleJob [exampleStep 1000
                   [exampleInput ''fileinput'' ''/zone/home/alice/in.txt'',
                    exampleInput ''bogus'' ''/zone/home/alice/x.dat'',
                    exampleInput ''folderinput'' ''/zone/home/alice/dir/'']]"

text \<open>An input of an unknown type that has no remote path, and an input whose type is
  written in capitals.\<close>

definition jobUnknownTypeNoPath :: Job where
  "jobUnknownTypeNoPath = exampleJob [exampleStep 1000 [exampleInput ''bogus'' []]]"

definition jobCapitalType :: Job where
  "jobCapitalType =
     exampleJob [exampleStep 1000 [exampleInput ''FileInput'' ''/zone/home/alice/in.txt'']]"

text \<open>Two inputs with the basename \<open>in.txt\<close>: both files; the second of an unknown type;
  and two inputs that both have no remote path (whose basename is \<open>.\<close>).\<close>

definition jobCollision :: Job where
  "jobCollision =
     exampleJob [exampleStep 1000
                   [exampleInput ''fileinput'' ''/a/in.txt'',
                    exampleInput ''fileinput'' ''/b/in.txt'']]"

definition jobCollisionUnknownType :: Job where
  "jobCollisionUnknownType =
     exampleJob [exampleStep 1000
                   [exampleInput ''fileinput'' ''/a/in.txt'',
                    exampleInput ''bogus'' ''/b/in.txt'']]"

definition jobTwoEmptyPaths :: Job where
  "jobTwoEmptyPaths =
     exampleJob [exampleStep 1000
                   [exampleInput ''fileinput'' [], exampleInput ''fileinput'' []]]"

text \<open>The Job of the launch scenario: one file input, container UID 1000; the same Job
  with the container UID 1001 and nothing else changed; and a Job with no step.\<close>

definition jobLaunch :: Job where
  "jobLaunch =
     exampleJob [exampleStep 1000 [exampleInput ''fileinput'' ''/zone/home/alice/in.txt'']]"

definition jobLaunchOtherUID :: Job where
  "jobLaunchOtherUID =
     exampleJob [exampleStep 1001 [exampleInput ''fileinput'' ''/zone/home/alice/in.txt'']]"

definition jobNoSteps :: Job where
  "jobNoSteps = exampleJob []"

text \<open>A cluster with the deployment of one running analysis, fully labelled, and requests
  to the inspection handlers.\<close>

definition analysisContainer :: PodContainer where
  "analysisContainer =
     \<lparr>ContainerName = ''analysis'', ContainerImage = ''jupyter:latest'',
      ContainerCommand = [], ContainerPorts = [8888],
      securityContext = Some \<lparr>RunAsUser = Some 1000, RunAsGroup = Some 1000\<rparr>\<rparr>"

definition completeLabels :: labels where
  "completeLabels =
     [(''app-type'', ''interactive''), (''external-id'', ''abc123''),
      (''user-id'', ''uid-alice''), (''subdomain'', ''auid-aliceabc123''),
      (''login-ip'', ''10.0.0.7''), (''analysis-id'', ''analysis-1'')]"

definition exampleDeployment :: "string \<Rightarrow> labels \<Rightarrow> Deployment" where
  "exampleDeployment name ls =
     \<lparr>Name = name, Namespace = ''vice-apps'', Labels = ls,
      CreationTimestamp = ''2024-01-01 00:00:00 +0000 UTC'',
      Containers = [analysisContainer]\<rparr>"

definition clusterRunning :: Clientset where
  "clusterRunning =
     emptyClientset\<lparr>clusterDeployments := [exampleDeployment ''vice-abc123'' completeLabels]\<rparr>"

definition exampleContext :: "string \<Rightarrow> Values \<Rightarrow> Context" where
  "exampleContext host values = \<lparr>pathParams = [(''host'', host)], queryValues = values\<rparr>"

text \<open>A Permissions service that denies every request.\<close>

definition denyingExternals :: externals where
  "denyingExternals = exampleExternals\<lparr>IsAllowed := (\<lambda>baseURL user analysisID. Inr False)\<rparr>"

text \<open>A Permissions service that cannot be reached.\<close>

definition unreachablePermissions :: externals where
  "unreachablePermissions =
     exampleExternals\<lparr>IsAllowed := (\<lambda>baseURL user analysisID. Inl (Errorf ''connection refused''))\<rparr>"

text \<open>A cluster whose deployment has an \<open>external-id\<close> that Apps does not know, and the
  listing of its subdomain.\<close>

definition orphanLabels :: labels where
  "orphanLabels =
     [(''app-type'', ''interactive''), (''external-id'', ''zzz999''),
      (''user-id'', ''uid-alice''), (''subdomain'', ''auid-alicezzz999'')]"

definition clusterOrphan :: Clientset where
  "clusterOrphan =
     emptyClientset\<lparr>clusterDeployments := [exampleDeployment ''vice-zzz999'' orphanLabels]\<rparr>"

definition orphanDeploymentInfo :: DeploymentInfo where
  "orphanDeploymentInfo =
     \<lparr>InfoName = ''vice-zzz999'', InfoNamespace = ''vice-apps'', AnalysisName = [],
      AppName = [], AppID = [], ExternalID = ''zzz999'', UserID = ''uid-alice'',
      Username = [], InfoCreationTimestamp = ''2024-01-01 00:00:00 +0000 UTC'',
      Image = ''jupyter:latest'', Command = [], Port = 8888, User = 1000, Group = 1000\<rparr>"

definition orphanListing :: ResourceInfo where
  "orphanListing =
     \<lparr>Deployments = [orphanDeploymentInfo], Pods = [], ConfigMaps = [], Services = [],
      Ingresses = []\<rparr>"

text \<open>What \<open>deploymentInfo\<close> gives for the deployment of \<open>clusterRunning\<close>.\<close>

definition runningDeploymentInfo :: DeploymentInfo where
  "runningDeploymentInfo =
     \<lparr>InfoName = ''vice-abc123'', InfoNamespace = ''vice-apps'', AnalysisName = [],
      AppName = [], AppID = [], ExternalID = ''abc123'', UserID = ''uid-alice'',
      Username = [], InfoCreationTimestamp = ''2024-01-01 00:00:00 +0000 UTC'',
      Image = ''jupyter:latest'', Command = [], Port = 8888, User = 1000, Group = 1000\<rparr>"

definition runningListing :: ResourceInfo where
  "runningListing =
     \<lparr>Deployments = [runningDeploymentInfo], Pods = [], ConfigMaps = [], Services = [],
      Ingresses = []\<rparr>"

definition emptyListing :: ResourceInfo where
  "emptyListing = \<lparr>Deployments = [], Pods = [], ConfigMaps = [], Services = [], Ingresses = []\<rparr>"

text \<open>The five List calls of \<open>doResourceListing\<close> for a selector.\<close>

definition listCalls :: "requirement list \<Rightarrow> call list" where
  "listCalls sel =
     map (\<lambda>kd. CallList kd ''vice-apps'' \<lparr>LabelSelector = sel\<rparr>)
       [KDeployment, KPod, KConfigMap, KService, KIngress]"

text \<open>A cluster for the sweep: a deployment with only its base labels, a deployment fully
  labelled, a config map that has \<open>subdomain\<close> but no \<open>login-ip\<close> and no \<open>analysis-id\<close>, and
  a pod with only its base labels.\<close>

definition baseLabels :: labels where
  "baseLabels =
     [(''app-type'', ''interactive''), (''external-id'', ''abc123''), (''user-id'', ''uid-alice'')]"

definition halfLabels :: labels where
  "halfLabels =
     [(''app-type'', ''interactive''), (''external-id'', ''abc123''), (''user-id'', ''uid-alice''),
      (''subdomain'', ''auid-aliceabc123'')]"

definition clusterToSweep :: Clientset where
  "clusterToSweep =
     emptyClientset
       \<lparr>clusterDeployments := [exampleDeployment ''vice-abc123'' baseLabels,
                                exampleDeployment ''vice-done'' completeLabels]\<rparr>"

text \<open>Unlabelled deployments in two namespaces, and a receiver configured with the empty
  namespace.\<close>

definition clusterTwoNamespaces :: Clientset where
  "clusterTwoNamespaces =
     emptyClientset
       \<lparr>clusterDeployments := [exampleDeployment ''vice-abc123'' baseLabels,
                                (exampleDeployment ''vice-elsewhere'' baseLabels)
                                  \<lparr>Namespace := ''other-apps''\<rparr>]\<rparr>"

definition allNamespacesIncluster :: "Clientset \<Rightarrow> Incluster" where
  "allNamespacesIncluster cs = (exampleIncluster cs)\<lparr>ViceNamespace := []\<rparr>"

definition relabelledBaseLabels :: labels where
  "relabelledBaseLabels =
     [(''app-type'', ''interactive''), (''external-id'', ''abc123''),
      (''user-id'', ''uid-alice''), (''subdomain'', ''auid-aliceabc123''),
      (''login-ip'', ''10.0.0.7''), (''analysis-id'', ''analysis-1'')]"

definition clusterHalfLabelled :: Clientset where
  "clusterHalfLabelled =
     emptyClientset
       \<lparr>clusterPods := [\<lparr>Name = ''vice-abc123-pod'', Namespace = ''vice-apps'',
                          Labels = baseLabels, CreationTimestamp = [],
                          StatusPhase = ''Running'', StatusMessage = [], StatusReason = [],
                          StatusContainerStatuses = [], StatusInitContainerStatuses = []\<rparr>],
        clusterConfigMaps := [\<lparr>Name = ''excludes-abc123'', Namespace = ''vice-apps'',
                                Labels = halfLabels, CreationTimestamp = [],
                                ConfigMapData = []\<rparr>]\<rparr>"

text \<open>The selector of the sweep.\<close>

definition sweepOptions :: ListOptions where
  "sweepOptions =
     \<lparr>LabelSelector = [Equals ''app-type'' ''interactive'', DoesNotExist ''subdomain'']\<rparr>"

text \<open>A job-status-listener that answers every POST with the given status code.\<close>

definition exampleHTTP :: "int \<Rightarrow> httpLibrary" where
  "exampleHTTP code =
     \<lparr>os_Hostname = Inr ''app-exposer-0'',
      url_Parse = (\<lambda>s. Inr \<lparr>Scheme = ''http'', Host = drop 7 s, Path = []\<rparr>),
      URL_String = (\<lambda>u. Scheme u @ ''://'' @ Host u @ ''/'' @ Path u),
      path_Join = (\<lambda>a b. a @ ''/'' @ b),
      json_MarshalStatus = (\<lambda>st. Inr (''{'' @ JobState_String (State st) @ ''}'')),
      http_NewRequestError = (\<lambda>method url body. None),
      httpClient_Do = (\<lambda>req. Inr \<lparr>StatusCode = code, BodyText = []\<rparr>)\<rparr>"

definition examplePublisher :: JSLPublisher where
  "examplePublisher = \<lparr>statusURL = ''http://job-status-listener''\<rparr>"

section \<open>Properties of volume synthesis\<close>

subsection \<open>The walk over the inputs\<close>

lemma inputsLoop_append:
  "inputsLoop x k (xs @ ys) st =
     (case inputsLoop x k xs st of Inl e \<Rightarrow> Inl e | Inr st' \<Rightarrow> inputsLoop x k ys st')"
proof (induction xs arbitrary: st)
  case Nil
  show ?case by simp
next
  case (Cons a xs)
  obtain ms mm where st: "st = (ms, mm)" by (cases st)
  show ?case
    unfolding st by (simp add: Cons.IH Let_def split: option.splits)
qed

lemma stepsLoop_concat:
  "stepsLoop x k steps st = inputsLoop x k (concat (map (\<lambda>step. Inputs (Config step)) steps)) st"
proof (induction steps arbitrary: st)
  case Nil
  show ?case by simp
next
  case (Cons s steps)
  show ?case
    by (simp add: inputsLoop_append Cons.IH split: sum.splits)
qed

lemma inputsLoop_skip:
  "irodsPath a = [] \<Longrightarrow> inputsLoop x k (a # rest) st = inputsLoop x k rest st"
  by (cases st) simp

lemma inputsLoop_filter:
  "inputsLoop x k (filter hasPath xs) st = inputsLoop x k xs st"
proof (induction xs arbitrary: st)
  case Nil
  show ?case by simp
next
  case (Cons a xs)
  obtain ms mm where st: "st = (ms, mm)" by (cases st)
  show ?case
  proof (cases "hasPath a")
    case True
    then have ne: "irodsPath a \<noteq> []" by (simp add: hasPath_def)
    show ?thesis
      unfolding st using True ne by (simp add: Cons.IH Let_def split: option.splits sum.splits)
  next
    case False
    then have "irodsPath a = []" by (simp add: hasPath_def)
    then show ?thesis
      using False by (simp add: Cons.IH inputsLoop_skip)
  qed
qed

lemma getInputPathMappings_walk:
  "getInputPathMappings x k job =
     (case inputsLoop x k (pathInputs job) ([], Map.empty) of
        Inl e \<Rightarrow> Inl e | Inr st \<Rightarrow> Inr (fst st))"
  by (simp add: getInputPathMappings_def stepsLoop_concat pathInputs_def allInputs_def
      inputsLoop_filter split: sum.splits prod.splits)

lemma inputsLoop_step_ok:
  assumes "hasPath a" "recognised x a" "mm (mountOf k a) = None"
  shows "inputsLoop x k (a # rest) (ms, mm) =
         inputsLoop x k rest (ms @ [inputMapping x k a], mm(mountOf k a \<mapsto> irodsPath a))"
  using assms
  by (auto simp: hasPath_def recognised_def mountOf_def inputMapping_def specResourceType_def Let_def)

lemma inputsLoop_step_unknown:
  assumes "hasPath a" "\<not> recognised x a"
  shows "inputsLoop x k (a # rest) (ms, mm) = Inl (errUnknownStepInputType (Type a))"
  using assms by (simp add: hasPath_def recognised_def)

lemma inputsLoop_step_collision:
  assumes "hasPath a" "recognised x a" "mm (mountOf k a) = Some p"
  shows "inputsLoop x k (a # rest) (ms, mm) =
         Inl (errInputPathCollision (irodsPath a) (mountOf k a) p)"
  using assms by (auto simp: hasPath_def recognised_def mountOf_def Let_def)

lemma inputsLoop_ok:
  assumes "\<forall>a\<in>set xs. hasPath a \<and> recognised x a"
    and "distinct (map (mountOf k) xs)"
    and "\<forall>a\<in>set xs. mm (mountOf k a) = None"
  shows "inputsLoop x k xs (ms, mm) =
         Inr (ms @ map (inputMapping x k) xs,
              mm ++ map_of (map (\<lambda>a. (mountOf k a, irodsPath a)) xs))"
  using assms
proof (induction xs arbitrary: ms mm)
  case Nil
  show ?case by simp
next
  case (Cons a xs)
  have a: "hasPath a" "recognised x a" "mm (mountOf k a) = None"
    using Cons.prems by simp_all
  have fresh: "mountOf k a \<notin> dom (map_of (map (\<lambda>a. (mountOf k a, irodsPath a)) xs))"
    using Cons.prems(2) by (auto simp: dom_map_of_conv_image_fst image_image)
  have "mountOf k a \<notin> mountOf k ` set xs"
    using Cons.prems(2) by simp
  then have "\<forall>b\<in>set xs. mountOf k b \<noteq> mountOf k a"
    by (metis image_eqI)
  then have rest: "\<forall>b\<in>set xs. (mm(mountOf k a \<mapsto> irodsPath a)) (mountOf k b) = None"
    using Cons.prems(3) by simp
  have "inputsLoop x k (a # xs) (ms, mm) =
        inputsLoop x k xs (ms @ [inputMapping x k a], mm(mountOf k a \<mapsto> irodsPath a))"
    by (rule inputsLoop_step_ok [where mm = mm, OF a])
  also have "\<dots> = Inr ((ms @ [inputMapping x k a]) @ map (inputMapping x k) xs,
                   mm(mountOf k a \<mapsto> irodsPath a)
                     ++ map_of (map (\<lambda>a. (mountOf k a, irodsPath a)) xs))"
  proof (rule Cons.IH [where ms = "ms @ [inputMapping x k a]"
                         and mm = "mm(mountOf k a \<mapsto> irodsPath a)"])
    show "\<forall>a\<in>set xs. hasPath a \<and> recognised x a" using Cons.prems(1) by simp
    show "distinct (map (mountOf k) xs)" using Cons.prems(2) by simp
    show "\<forall>b\<in>set xs. (mm(mountOf k a \<mapsto> irodsPath a)) (mountOf k b) = None" by (rule rest)
  qed
  also have "\<dots> = Inr (ms @ map (inputMapping x k) (a # xs),
                   mm ++ map_of (map (\<lambda>a. (mountOf k a, irodsPath a)) (a # xs)))"
    using fresh by (simp add: map_add_upd_left)
  finally show ?case .
qed

lemma inputsLoop_Inr_imp:
  assumes "inputsLoop x k xs (ms, mm) = Inr st'" and "\<forall>a\<in>set xs. hasPath a"
  shows "(\<forall>a\<in>set xs. recognised x a) \<and> distinct (map (mountOf k) xs)
         \<and> (\<forall>a\<in>set xs. mm (mountOf k a) = None)"
  using assms
proof (induction xs arbitrary: ms mm)
  case Nil
  show ?case by simp
next
  case (Cons a xs)
  have hp: "hasPath a" using Cons.prems(2) by simp
  have rec: "recognised x a"
  proof (rule ccontr)
    assume "\<not> recognised x a"
    then show False using Cons.prems(1) inputsLoop_step_unknown [OF hp] by simp
  qed
  have free: "mm (mountOf k a) = None"
  proof (cases "mm (mountOf k a)")
    case None then show ?thesis .
  next
    case (Some p)
    then show ?thesis using Cons.prems(1) inputsLoop_step_collision [where mm = mm, OF hp rec Some] by simp
  qed
  have step: "inputsLoop x k xs (ms @ [inputMapping x k a], mm(mountOf k a \<mapsto> irodsPath a)) = Inr st'"
    using Cons.prems(1) inputsLoop_step_ok [where mm = mm, OF hp rec free] by simp
  have tl: "\<forall>b\<in>set xs. hasPath b" using Cons.prems(2) by simp
  have IH: "(\<forall>b\<in>set xs. recognised x b) \<and> distinct (map (mountOf k) xs)
         \<and> (\<forall>b\<in>set xs. (mm(mountOf k a \<mapsto> irodsPath a)) (mountOf k b) = None)"
    by (rule Cons.IH [OF step tl])
  then have "\<forall>b\<in>set xs. mountOf k b \<noteq> mountOf k a \<and> mm (mountOf k b) = None"
    by (auto split: if_splits)
  with IH rec free show ?case by auto
qed

subsection \<open>Inputs without a remote path\<close>

text \<open>
  C10. A step input whose remote path is the empty string is skipped entirely: wherever it
  stands in the Job and whatever its type is, \<open>getInputPathMappings\<close> returns for the Job
  with the input exactly what it returns for the Job without it (the same mappings or the
  same error). So it adds no mapping, takes part in no collision, and its type is never
  looked at.
\<close>

theorem empty_path_input_skipped:
  assumes "irodsPath a = []"
  shows "getInputPathMappings x k
           (job\<lparr>Steps := before @ step\<lparr>Config := \<lparr>Inputs = xs @ a # ys\<rparr>\<rparr> # after\<rparr>)
       = getInputPathMappings x k
           (job\<lparr>Steps := before @ step\<lparr>Config := \<lparr>Inputs = xs @ ys\<rparr>\<rparr> # after\<rparr>)"
proof -
  have "\<not> hasPath a" using assms by (simp add: hasPath_def)
  then have "pathInputs (job\<lparr>Steps := before @ step\<lparr>Config := \<lparr>Inputs = xs @ a # ys\<rparr>\<rparr> # after\<rparr>)
           = pathInputs (job\<lparr>Steps := before @ step\<lparr>Config := \<lparr>Inputs = xs @ ys\<rparr>\<rparr> # after\<rparr>)"
    by (simp add: pathInputs_def allInputs_def)
  then show ?thesis by (simp only: getInputPathMappings_walk)
qed

text \<open>An input of an unknown type and with no path, between a file and a folder input: the
  two mappings are produced and nothing fails.\<close>

theorem empty_path_input_skipped_witness:
  "irodsPath (exampleInput ''bogus'' []) = []
   \<and> getInputPathMappings exampleExternals exampleConstants
        (exampleJob [exampleStep 1000
           [exampleInput ''fileinput'' ''/zone/home/alice/in.txt'',
            exampleInput ''bogus'' [],
            exampleInput ''FolderInput'' ''/zone/home/alice/dir/'']])
     = Inr [\<lparr>IRODSPath = ''/zone/home/alice/in.txt'', MappingPath = ''/input/in.txt'',
             ResourceType = ''file'', ReadOnly = True, CreateDir = False,
             IgnoreNotExistError = True\<rparr>,
            \<lparr>IRODSPath = ''/zone/home/alice/dir/'', MappingPath = ''/input/dir'',
             ResourceType = ''dir'', ReadOnly = True, CreateDir = False,
             IgnoreNotExistError = True\<rparr>]"
proof -
  have h: "irodsPath (exampleInput ''bogus'' []) = []"
    by (simp add: exampleInput_def)
  have without: "getInputPathMappings exampleExternals exampleConstants
        ((exampleJob [])\<lparr>Steps := [] @ (exampleStep 1000 [])\<lparr>Config := \<lparr>Inputs =
           [exampleInput ''fileinput'' ''/zone/home/alice/in.txt''] @
            [exampleInput ''FolderInput'' ''/zone/home/alice/dir/'']\<rparr>\<rparr> # []\<rparr>)
     = Inr [\<lparr>IRODSPath = ''/zone/home/alice/in.txt'', MappingPath = ''/input/in.txt'',
             ResourceType = ''file'', ReadOnly = True, CreateDir = False,
             IgnoreNotExistError = True\<rparr>,
            \<lparr>IRODSPath = ''/zone/home/alice/dir/'', MappingPath = ''/input/dir'',
             ResourceType = ''dir'', ReadOnly = True, CreateDir = False,
             IgnoreNotExistError = True\<rparr>]"
    by code_simp
  have same: "exampleJob [exampleStep 1000
           [exampleInput ''fileinput'' ''/zone/home/alice/in.txt'',
            exampleInput ''bogus'' [],
            exampleInput ''FolderInput'' ''/zone/home/alice/dir/'']]
       = (exampleJob [])\<lparr>Steps := [] @ (exampleStep 1000 [])\<lparr>Config := \<lparr>Inputs =
           [exampleInput ''fileinput'' ''/zone/home/alice/in.txt''] @ exampleInput ''bogus'' [] #
            [exampleInput ''FolderInput'' ''/zone/home/alice/dir/'']\<rparr>\<rparr> # []\<rparr>"
    by (simp add: exampleJob_def exampleStep_def)
  show ?thesis
    using h without
      empty_path_input_skipped [OF h, where x = exampleExternals and k = exampleConstants
        and job = "exampleJob []" and before = "[]" and step = "exampleStep 1000 []"
        and xs = "[exampleInput ''fileinput'' ''/zone/home/alice/in.txt'']"
        and ys = "[exampleInput ''FolderInput'' ''/zone/home/alice/dir/'']" and after = "[]"]
    by (simp only: same)
qed

subsection \<open>When the walk succeeds and how it fails\<close>

lemma pathInputs_hasPath: "\<forall>a\<in>set (pathInputs job). hasPath a"
  by (simp add: pathInputs_def)

lemma getInputPathMappings_Inr_iff:
  "getInputPathMappings x k job = Inr ms \<longleftrightarrow>
     (\<forall>a\<in>set (pathInputs job). recognised x a) \<and> distinct (map (mountOf k) (pathInputs job))
     \<and> ms = map (inputMapping x k) (pathInputs job)"
proof
  assume ok: "getInputPathMappings x k job = Inr ms"
  then obtain st where st: "inputsLoop x k (pathInputs job) ([], Map.empty) = Inr st" and ms: "ms = fst st"
    by (auto simp: getInputPathMappings_walk split: sum.splits)
  from inputsLoop_Inr_imp [OF st pathInputs_hasPath]
  have rec: "\<forall>a\<in>set (pathInputs job). recognised x a"
    and dist: "distinct (map (mountOf k) (pathInputs job))" by simp_all
  have "inputsLoop x k (pathInputs job) ([], Map.empty) =
        Inr ([] @ map (inputMapping x k) (pathInputs job),
             Map.empty ++ map_of (map (\<lambda>a. (mountOf k a, irodsPath a)) (pathInputs job)))"
    using rec dist pathInputs_hasPath [of job] by (intro inputsLoop_ok) simp_all
  with st ms have "ms = map (inputMapping x k) (pathInputs job)" by auto
  with rec dist show "(\<forall>a\<in>set (pathInputs job). recognised x a) \<and> distinct (map (mountOf k) (pathInputs job))
     \<and> ms = map (inputMapping x k) (pathInputs job)" by simp
next
  assume a: "(\<forall>a\<in>set (pathInputs job). recognised x a) \<and> distinct (map (mountOf k) (pathInputs job))
     \<and> ms = map (inputMapping x k) (pathInputs job)"
  have "inputsLoop x k (pathInputs job) ([], Map.empty) =
        Inr ([] @ map (inputMapping x k) (pathInputs job),
             Map.empty ++ map_of (map (\<lambda>a. (mountOf k a, irodsPath a)) (pathInputs job)))"
    using a pathInputs_hasPath [of job] by (intro inputsLoop_ok) simp_all
  then show "getInputPathMappings x k job = Inr ms"
    using a by (simp add: getInputPathMappings_walk)
qed

lemma walk_prefix_ok:
  assumes "\<forall>b\<in>set pre. hasPath b \<and> recognised x b" and "distinct (map (mountOf k) pre)"
  shows "inputsLoop x k (pre @ rest) ([], Map.empty) =
         inputsLoop x k rest (map (inputMapping x k) pre,
                              map_of (map (\<lambda>a. (mountOf k a, irodsPath a)) pre))"
proof -
  have "inputsLoop x k pre ([], Map.empty) =
        Inr ([] @ map (inputMapping x k) pre,
             Map.empty ++ map_of (map (\<lambda>a. (mountOf k a, irodsPath a)) pre))"
    using assms by (intro inputsLoop_ok) simp_all
  then show ?thesis by (simp add: inputsLoop_append)
qed

lemma getInputPathMappings_unknown:
  assumes split: "pathInputs job = pre @ a # post"
    and pre: "\<forall>b\<in>set pre. recognised x b" "distinct (map (mountOf k) pre)"
    and a: "\<not> recognised x a"
  shows "getInputPathMappings x k job = Inl (errUnknownStepInputType (Type a))"
proof -
  have hp: "\<forall>b\<in>set (pre @ a # post). hasPath b"
    using pathInputs_hasPath [of job] by (simp only: split)
  then have "\<forall>b\<in>set pre. hasPath b \<and> recognised x b" and hpa: "hasPath a"
    using pre(1) by simp_all
  then have "inputsLoop x k (pre @ a # post) ([], Map.empty) =
         inputsLoop x k (a # post) (map (inputMapping x k) pre,
                              map_of (map (\<lambda>a. (mountOf k a, irodsPath a)) pre))"
    using pre(2) by (intro walk_prefix_ok)
  also have "\<dots> = Inl (errUnknownStepInputType (Type a))"
    by (rule inputsLoop_step_unknown [OF hpa a])
  finally show ?thesis by (simp add: getInputPathMappings_walk split)
qed

lemma getInputPathMappings_collision:
  assumes split: "pathInputs job = pre @ a # post"
    and pre: "\<forall>b\<in>set pre. recognised x b" "distinct (map (mountOf k) pre)"
    and a: "recognised x a"
    and b: "b \<in> set pre" "mountOf k b = mountOf k a"
  shows "getInputPathMappings x k job =
         Inl (errInputPathCollision (irodsPath a) (mountOf k a) (irodsPath b))"
proof -
  have hp: "\<forall>b\<in>set (pre @ a # post). hasPath b"
    using pathInputs_hasPath [of job] by (simp only: split)
  then have "\<forall>b\<in>set pre. hasPath b \<and> recognised x b" and hpa: "hasPath a"
    using pre(1) by simp_all
  then have walk: "inputsLoop x k (pre @ a # post) ([], Map.empty) =
         inputsLoop x k (a # post) (map (inputMapping x k) pre,
                              map_of (map (\<lambda>a. (mountOf k a, irodsPath a)) pre))"
    using pre(2) by (intro walk_prefix_ok)
  have "distinct (map fst (map (\<lambda>a. (mountOf k a, irodsPath a)) pre))"
    using pre(2) by (simp add: comp_def)
  moreover have "(mountOf k b, irodsPath b) \<in> set (map (\<lambda>a. (mountOf k a, irodsPath a)) pre)"
    using b(1) by auto
  ultimately have "map_of (map (\<lambda>a. (mountOf k a, irodsPath a)) pre) (mountOf k b) = Some (irodsPath b)"
    by (rule map_of_is_SomeI)
  then have taken: "map_of (map (\<lambda>a. (mountOf k a, irodsPath a)) pre) (mountOf k a) = Some (irodsPath b)"
    by (simp add: b(2))
  have "inputsLoop x k (a # post) (map (inputMapping x k) pre,
                              map_of (map (\<lambda>a. (mountOf k a, irodsPath a)) pre))
        = Inl (errInputPathCollision (irodsPath a) (mountOf k a) (irodsPath b))"
    by (rule inputsLoop_step_collision [where mm = "map_of (map (\<lambda>a. (mountOf k a, irodsPath a)) pre)", OF hpa a taken])
  with walk show ?thesis by (simp add: getInputPathMappings_walk split)
qed

lemma first_repeat:
  "\<not> distinct (map f xs) \<Longrightarrow>
   \<exists>pre a post. xs = pre @ a # post \<and> distinct (map f pre) \<and> f a \<in> f ` set pre"
proof (induction xs rule: rev_induct)
  case Nil
  then show ?case by simp
next
  case (snoc y ys)
  show ?case
  proof (cases "distinct (map f ys)")
    case True
    with snoc.prems have "f y \<in> f ` set ys" by simp
    with True have "ys @ [y] = ys @ y # [] \<and> distinct (map f ys) \<and> f y \<in> f ` set ys" by simp
    then show ?thesis by blast
  next
    case False
    from snoc.IH [OF False] obtain pre a post where
      "ys = pre @ a # post" "distinct (map f pre)" "f a \<in> f ` set pre" by blast
    then have "ys @ [y] = pre @ a # (post @ [y]) \<and> distinct (map f pre) \<and> f a \<in> f ` set pre" by simp
    then show ?thesis by blast
  qed
qed

lemma mountOf_eq_iff:
  "mountOf k a = mountOf k b \<longleftrightarrow> filepath_Base (irodsPath a) = filepath_Base (irodsPath b)"
  by (simp add: mountOf_def inputMountPath_def)

subsection \<open>Input types and resource types\<close>

text \<open>
  C7, as amended. Only inputs with a non-empty remote path are walked, and their type is
  compared after \<open>ToLower\<close>. When \<open>getInputPathMappings\<close> succeeds, its result is exactly
  one mapping per such input, in order, with \<open>ResourceType\<close> \<open>file\<close> for \<open>fileinput\<close> and
  \<open>multifileselector\<close> and \<open>dir\<close> for \<open>folderinput\<close> (the definition \<open>inputMapping\<close>), and
  every such input has one of the three types. When the walk reaches an input with a
  remote path whose type is none of the three (the inputs before it are of known types
  and have distinct mount paths), synthesis fails with the unknown step input type error
  for that type.
\<close>

theorem input_type_decides_resource_type:
  "(getInputPathMappings x k job = Inr ms \<longrightarrow>
      ms = map (inputMapping x k) (pathInputs job) \<and> (\<forall>a\<in>set (pathInputs job). recognised x a))
   \<and> (pathInputs job = pre @ a # post \<and> (\<forall>b\<in>set pre. recognised x b)
        \<and> distinct (map (mountOf k) pre) \<and> \<not> recognised x a
      \<longrightarrow> getInputPathMappings x k job = Inl (errUnknownStepInputType (Type a)))"
  using getInputPathMappings_Inr_iff [of x k job ms]
    getInputPathMappings_unknown [of job pre a post x k]
  by blast

text \<open>A Job whose three inputs get \<open>file\<close>, \<open>file\<close> and \<open>dir\<close>, and a Job that fails at its
  second input.\<close>

theorem input_type_decides_resource_type_witness:
  "getInputPathMappings exampleExternals exampleConstants jobMixedTypes
     = Inr (map (inputMapping exampleExternals exampleConstants) (pathInputs jobMixedTypes))
   \<and> map ResourceType (map (inputMapping exampleExternals exampleConstants) (pathInputs jobMixedTypes))
       = [''file'', ''file'', ''dir'']
   \<and> getInputPathMappings exampleExternals exampleConstants jobUnknownType
       = Inl (errUnknownStepInputType ''bogus'')"
proof -
  let ?ms = "[\<lparr>IRODSPath = ''/zone/home/alice/in.txt'', MappingPath = ''/input/in.txt'',
               ResourceType = ''file'', ReadOnly = True, CreateDir = False,
               IgnoreNotExistError = True\<rparr>,
              \<lparr>IRODSPath = ''/zone/home/alice/reads.fq'', MappingPath = ''/input/reads.fq'',
               ResourceType = ''file'', ReadOnly = True, CreateDir = False,
               IgnoreNotExistError = True\<rparr>,
              \<lparr>IRODSPath = ''/zone/home/alice/dir/'', MappingPath = ''/input/dir'',
               ResourceType = ''dir'', ReadOnly = True, CreateDir = False,
               IgnoreNotExistError = True\<rparr>]"
  have h1: "getInputPathMappings exampleExternals exampleConstants jobMixedTypes = Inr ?ms"
    by code_simp
  have c1: "?ms = map (inputMapping exampleExternals exampleConstants) (pathInputs jobMixedTypes)"
    using h1 input_type_decides_resource_type
      [where x = exampleExternals and k = exampleConstants and job = jobMixedTypes and ms = ?ms]
    by blast
  have h2: "pathInputs jobUnknownType
              = [exampleInput ''fileinput'' ''/zone/home/alice/in.txt'']
                @ exampleInput ''bogus'' ''/zone/home/alice/x.dat''
                # [exampleInput ''folderinput'' ''/zone/home/alice/dir/'']
            \<and> (\<forall>b\<in>set [exampleInput ''fileinput'' ''/zone/home/alice/in.txt'']. recognised exampleExternals b)
            \<and> distinct (map (mountOf exampleConstants) [exampleInput ''fileinput'' ''/zone/home/alice/in.txt''])
            \<and> \<not> recognised exampleExternals (exampleInput ''bogus'' ''/zone/home/alice/x.dat'')"
    by code_simp
  have c2: "getInputPathMappings exampleExternals exampleConstants jobUnknownType
       = Inl (errUnknownStepInputType (Type (exampleInput ''bogus'' ''/zone/home/alice/x.dat'')))"
    using h2 input_type_decides_resource_type
      [where x = exampleExternals and k = exampleConstants and job = jobUnknownType
         and pre = "[exampleInput ''fileinput'' ''/zone/home/alice/in.txt'']"
         and a = "exampleInput ''bogus'' ''/zone/home/alice/x.dat''"
         and post = "[exampleInput ''folderinput'' ''/zone/home/alice/dir/'']"]
    by blast
  have ty: "Type (exampleInput ''bogus'' ''/zone/home/alice/x.dat'') = ''bogus''"
    by (simp add: exampleInput_def)
  have rt: "map ResourceType ?ms = [''file'', ''file'', ''dir'']" by simp
  show ?thesis
    using h1 c1 c2 rt by (simp only: ty)
qed

text \<open>
  C7 as stated fails: an input of the unknown type \<open>bogus\<close> that has no remote path does
  not make synthesis fail, and an input whose type is spelled \<open>FileInput\<close>, which is not the
  string \<open>fileinput\<close>, gets a \<open>file\<close> mapping.
\<close>

theorem input_type_counterexample:
  "strings_ToLower ''bogus'' \<notin> {''fileinput'', ''multifileselector'', ''folderinput''}
   \<and> getInputPathMappings exampleExternals exampleConstants jobUnknownTypeNoPath = Inr []
   \<and> ''FileInput'' \<notin> {''fileinput'', ''multifileselector'', ''folderinput''}
   \<and> getInputPathMappings exampleExternals exampleConstants jobCapitalType
       = Inr [\<lparr>IRODSPath = ''/zone/home/alice/in.txt'', MappingPath = ''/input/in.txt'',
               ResourceType = ''file'', ReadOnly = True, CreateDir = False,
               IgnoreNotExistError = True\<rparr>]"
  by code_simp

subsection \<open>Colliding basenames\<close>

text \<open>
  C6, as amended. Take a Job whose inputs with a remote path all have a known type. If two
  of these inputs have the same basename, \<open>getInputPathMappings\<close> fails, and the error is
  the collision error of a pair of inputs with the same basename: it names the remote path
  of the later input, the mount path, and the remote path of the earlier input. No
  mapping list is returned.
\<close>

theorem basename_collision_fails:
  assumes "\<forall>a\<in>set (pathInputs job). recognised x a"
    and "i < j" and "j < length (pathInputs job)"
    and "filepath_Base (irodsPath (pathInputs job ! i)) = filepath_Base (irodsPath (pathInputs job ! j))"
  shows "\<exists>i' j'. i' < j' \<and> j' < length (pathInputs job)
           \<and> filepath_Base (irodsPath (pathInputs job ! i'))
               = filepath_Base (irodsPath (pathInputs job ! j'))
           \<and> getInputPathMappings x k job
               = Inl (errInputPathCollision (irodsPath (pathInputs job ! j'))
                        (inputMountPath k (irodsPath (pathInputs job ! j')))
                        (irodsPath (pathInputs job ! i')))"
proof -
  let ?ps = "pathInputs job"
  have "mountOf k (?ps ! i) = mountOf k (?ps ! j)"
    using assms(4) by (simp add: mountOf_eq_iff)
  then have "map (mountOf k) ?ps ! i = map (mountOf k) ?ps ! j"
    using assms(2,3) by simp
  moreover have "i < length (map (mountOf k) ?ps)" "j < length (map (mountOf k) ?ps)" "i \<noteq> j"
    using assms(2,3) by simp_all
  ultimately have "\<not> distinct (map (mountOf k) ?ps)"
    by (metis nth_eq_iff_index_eq)
  from first_repeat [OF this] obtain pre a post where
    split: "?ps = pre @ a # post" and dist: "distinct (map (mountOf k) pre)"
    and rep: "mountOf k a \<in> mountOf k ` set pre" by blast
  from rep obtain b where b: "b \<in> set pre" "mountOf k b = mountOf k a" by auto
  from b(1) obtain i' where i': "i' < length pre" "pre ! i' = b"
    by (auto simp: in_set_conv_nth)
  have rec_pre: "\<forall>b\<in>set pre. recognised x b" and rec_a: "recognised x a"
    using assms(1) by (simp_all add: split)
  have res: "getInputPathMappings x k job =
             Inl (errInputPathCollision (irodsPath a) (mountOf k a) (irodsPath b))"
    by (rule getInputPathMappings_collision [OF split rec_pre dist rec_a b])
  have nth_i: "?ps ! i' = b" using i' by (simp add: split nth_append)
  have nth_j: "?ps ! length pre = a" by (simp add: split)
  have "i' < length pre \<and> length pre < length ?ps
        \<and> filepath_Base (irodsPath (?ps ! i')) = filepath_Base (irodsPath (?ps ! length pre))
        \<and> getInputPathMappings x k job
               = Inl (errInputPathCollision (irodsPath (?ps ! length pre))
                        (inputMountPath k (irodsPath (?ps ! length pre)))
                        (irodsPath (?ps ! i')))"
    unfolding nth_i nth_j
    using i'(1) b(2) res mountOf_eq_iff [of k b a] by (simp add: split mountOf_def)
  then show ?thesis by blast
qed

text \<open>The collision scenario: \<open>/a/in.txt\<close> and \<open>/b/in.txt\<close>.\<close>

theorem basename_collision_fails_witness:
  "list_all (recognised exampleExternals) (pathInputs jobCollision)
   \<and> (0::nat) < 1 \<and> 1 < length (pathInputs jobCollision)
   \<and> filepath_Base (irodsPath (pathInputs jobCollision ! 0)) = ''in.txt''
   \<and> filepath_Base (irodsPath (pathInputs jobCollision ! 1)) = ''in.txt''
   \<and> (\<exists>i' j'. i' < j' \<and> j' < length (pathInputs jobCollision)
           \<and> filepath_Base (irodsPath (pathInputs jobCollision ! i'))
               = filepath_Base (irodsPath (pathInputs jobCollision ! j'))
           \<and> getInputPathMappings exampleExternals exampleConstants jobCollision
               = Inl (errInputPathCollision (irodsPath (pathInputs jobCollision ! j'))
                        (inputMountPath exampleConstants (irodsPath (pathInputs jobCollision ! j')))
                        (irodsPath (pathInputs jobCollision ! i'))))
   \<and> getInputPathMappings exampleExternals exampleConstants jobCollision
       = Inl (errInputPathCollision ''/b/in.txt'' ''/input/in.txt'' ''/a/in.txt'')"
proof -
  have h0: "list_all (recognised exampleExternals) (pathInputs jobCollision)" by code_simp
  then have h1: "\<forall>a\<in>set (pathInputs jobCollision). recognised exampleExternals a"
    by (simp only: list_all_iff)
  have h2: "(0::nat) < 1" by simp
  have h3: "1 < length (pathInputs jobCollision)" by code_simp
  have b0: "filepath_Base (irodsPath (pathInputs jobCollision ! 0)) = ''in.txt''" by code_simp
  have b1: "filepath_Base (irodsPath (pathInputs jobCollision ! 1)) = ''in.txt''" by code_simp
  have h4: "filepath_Base (irodsPath (pathInputs jobCollision ! 0))
            = filepath_Base (irodsPath (pathInputs jobCollision ! 1))"
    by (simp only: b0 b1)
  have v: "getInputPathMappings exampleExternals exampleConstants jobCollision
       = Inl (errInputPathCollision ''/b/in.txt'' ''/input/in.txt'' ''/a/in.txt'')"
    by code_simp
  show ?thesis
    using h0 h2 h3 b0 b1 v
      basename_collision_fails [OF h1 h2 h3 h4, where k = exampleConstants]
    by blast
qed

text \<open>
  C6 as stated fails: when the second of two inputs with the basename \<open>in.txt\<close> has an
  unknown type, the error is the unknown step input type error, not the collision error;
  and two inputs with no remote path (both of basename \<open>.\<close>) are skipped, the empty mapping
  list being returned.
\<close>

theorem basename_collision_counterexample:
  "filepath_Base ''/a/in.txt'' = filepath_Base ''/b/in.txt''
   \<and> getInputPathMappings exampleExternals exampleConstants jobCollisionUnknownType
       = Inl (errUnknownStepInputType ''bogus'')
   \<and> errUnknownStepInputType ''bogus''
       \<noteq> errInputPathCollision ''/b/in.txt'' ''/input/in.txt'' ''/a/in.txt''
   \<and> filepath_Base [] = filepath_Base []
   \<and> getInputPathMappings exampleExternals exampleConstants jobTwoEmptyPaths = Inr []"
  by code_simp

subsection \<open>The attributes of the persistent volume\<close>

text \<open>What \<open>getPersistentVolumes\<close> writes into the volume attributes, for every Job for
  which it returns: \<open>gid\<close> is formatted from the UID of the first step's container.\<close>

lemma getPersistentVolumes_attributes:
  assumes "getPersistentVolumes x k i job = Inr pvs" and "UseCSIDriver i"
  shows "\<exists>pv step0 others inputMappings json.
           pvs = [pv] \<and> Steps job = step0 # others
           \<and> getInputPathMappings x k job = Inr inputMappings
           \<and> json_Marshal x
                (inputMappings @ [getOutputPathMapping k job]
                 @ (if UserHome job \<noteq> [] then [getHomePathMapping job] else [])
                 @ [getSharedPathMapping i]) = Inr json
           \<and> VolumeAttributes pv ''clientUser'' = Some (Submitter job)
           \<and> VolumeAttributes pv ''client'' = Some ''irodsfuse''
           \<and> VolumeAttributes pv ''no_permission_check'' = Some ''true''
           \<and> VolumeAttributes pv ''path_mapping_json'' = Some json
           \<and> VolumeAttributes pv ''uid'' = Some (Sprintf_d (UID (Container (Component step0))))
           \<and> VolumeAttributes pv ''gid'' = Some (Sprintf_d (UID (Container (Component step0))))"
  using assms
  by (auto simp: getPersistentVolumes_def Let_def split: sum.splits list.splits if_splits)

text \<open>The function reads \<open>job.Steps[0]\<close> with no check of the length: given a Job with
  no step it panics.\<close>

lemma getPersistentVolumes_no_steps:
  "isl (getPersistentVolumes exampleExternals exampleConstants
          (exampleIncluster emptyClientset) jobNoSteps)
   \<and> projl (getPersistentVolumes exampleExternals exampleConstants
               (exampleIncluster emptyClientset) jobNoSteps)
       = Panic ''index out of range [0] with length 0''"
  by code_simp

text \<open>
  C1, as amended. In remote-FS (CSI) mode, for every Job that has a first step and for
  which the input path mappings, their JSON encoding and the labels can be computed,
  \<open>getPersistentVolumes\<close> returns one volume whose CSI attributes carry \<open>clientUser\<close> equal
  to the Submitter, \<open>client = irodsfuse\<close>, \<open>no_permission_check = true\<close>, the JSON encoding
  of the path mappings (inputs, output, home when \<open>UserHome\<close> is set, shared) under
  \<open>path_mapping_json\<close>, and \<open>uid\<close> and \<open>gid\<close> both the decimal UID of the first step's
  container.
\<close>

theorem volume_attributes_of_csi_volume:
  assumes "UseCSIDriver i"
    and "Steps job = step0 # others"
    and "getInputPathMappings x k job = Inr inputMappings"
    and "json_Marshal x
           (inputMappings @ [getOutputPathMapping k job]
            @ (if UserHome job \<noteq> [] then [getHomePathMapping job] else [])
            @ [getSharedPathMapping i]) = Inr json"
    and "LabelsFromJob x job = Inr ls"
  shows "\<exists>pv. getPersistentVolumes x k i job = Inr [pv]
           \<and> VolumeAttributes pv ''clientUser'' = Some (Submitter job)
           \<and> VolumeAttributes pv ''client'' = Some ''irodsfuse''
           \<and> VolumeAttributes pv ''no_permission_check'' = Some ''true''
           \<and> VolumeAttributes pv ''path_mapping_json'' = Some json
           \<and> VolumeAttributes pv ''uid'' = Some (Sprintf_d (UID (Container (Component step0))))
           \<and> VolumeAttributes pv ''gid'' = Some (Sprintf_d (UID (Container (Component step0))))"
  using assms
  by (simp add: getPersistentVolumes_def getCSIDataVolumeLabels_def Let_def)

text \<open>The Job of the launch scenario, whose container has UID 1000.\<close>

theorem volume_attributes_of_csi_volume_witness:
  "UseCSIDriver (exampleIncluster emptyClientset)
   \<and> Steps jobLaunch
       = exampleStep 1000 [exampleInput ''fileinput'' ''/zone/home/alice/in.txt''] # []
   \<and> getInputPathMappings exampleExternals exampleConstants jobLaunch
       = Inr [\<lparr>IRODSPath = ''/zone/home/alice/in.txt'', MappingPath = ''/input/in.txt'',
               ResourceType = ''file'', ReadOnly = True, CreateDir = False,
               IgnoreNotExistError = True\<rparr>]
   \<and> LabelsFromJob exampleExternals jobLaunch
       = Inr [(''app-type'', ''interactive''), (''external-id'', ''abc123'')]
   \<and> (\<exists>pv. getPersistentVolumes exampleExternals exampleConstants
               (exampleIncluster emptyClientset) jobLaunch = Inr [pv]
           \<and> VolumeAttributes pv ''clientUser'' = Some ''alice''
           \<and> VolumeAttributes pv ''client'' = Some ''irodsfuse''
           \<and> VolumeAttributes pv ''no_permission_check'' = Some ''true''
           \<and> VolumeAttributes pv ''path_mapping_json''
               = Some ''</input/in.txt></output></zone/home/alice></zone/home/shared>''
           \<and> VolumeAttributes pv ''uid'' = Some ''1000''
           \<and> VolumeAttributes pv ''gid'' = Some ''1000'')"
proof -
  let ?i = "exampleIncluster emptyClientset"
  let ?ms = "[\<lparr>IRODSPath = ''/zone/home/alice/in.txt'', MappingPath = ''/input/in.txt'',
               ResourceType = ''file'', ReadOnly = True, CreateDir = False,
               IgnoreNotExistError = True\<rparr>]"
  have h1: "UseCSIDriver ?i" by code_simp
  have h2: "Steps jobLaunch
              = exampleStep 1000 [exampleInput ''fileinput'' ''/zone/home/alice/in.txt''] # []"
    by (simp add: jobLaunch_def exampleJob_def)
  have h3: "getInputPathMappings exampleExternals exampleConstants jobLaunch = Inr ?ms"
    by code_simp
  have h4: "json_Marshal exampleExternals
           (?ms @ [getOutputPathMapping exampleConstants jobLaunch]
            @ (if UserHome jobLaunch \<noteq> [] then [getHomePathMapping jobLaunch] else [])
            @ [getSharedPathMapping ?i])
       = Inr ''</input/in.txt></output></zone/home/alice></zone/home/shared>''"
    by code_simp
  have h5: "LabelsFromJob exampleExternals jobLaunch
       = Inr [(''app-type'', ''interactive''), (''external-id'', ''abc123'')]"
    by code_simp
  have s: "Submitter jobLaunch = ''alice''" by (simp add: jobLaunch_def exampleJob_def)
  have u: "Sprintf_d (UID (Container (Component
             (exampleStep 1000 [exampleInput ''fileinput'' ''/zone/home/alice/in.txt'']))))
           = ''1000''"
    by code_simp
  note T = volume_attributes_of_csi_volume [OF h1 h2 h3 h4 h5, unfolded s u]
  show ?thesis
    using h1 h2 h3 h5 T by blast
qed

text \<open>
  C1 as stated fails: \<open>gid\<close> is not taken from a group id of the container; the sources
  read no such field. Two Jobs that differ in nothing but the UID of the first step's
  container, 1000 and 1001, get the \<open>gid\<close> attributes \<open>1000\<close> and \<open>1001\<close>: \<open>gid\<close> follows the
  UID, as \<open>uid\<close> does.
\<close>

theorem gid_attribute_counterexample:
  "map (\<lambda>step. UID (Container (Component step))) (Steps jobLaunch) = [1000]
   \<and> jobLaunchOtherUID
       = jobLaunch\<lparr>Steps := map (\<lambda>step. step\<lparr>Component := \<lparr>Container = \<lparr>UID = 1001\<rparr>\<rparr>\<rparr>)
                                (Steps jobLaunch)\<rparr>
   \<and> volumeAttribute (getPersistentVolumes exampleExternals exampleConstants
                      (exampleIncluster emptyClientset) jobLaunch) ''uid'' = Some ''1000''
   \<and> volumeAttribute (getPersistentVolumes exampleExternals exampleConstants
                      (exampleIncluster emptyClientset) jobLaunch) ''gid'' = Some ''1000''
   \<and> volumeAttribute (getPersistentVolumes exampleExternals exampleConstants
                      (exampleIncluster emptyClientset) jobLaunchOtherUID) ''uid'' = Some ''1001''
   \<and> volumeAttribute (getPersistentVolumes exampleExternals exampleConstants
                      (exampleIncluster emptyClientset) jobLaunchOtherUID) ''gid'' = Some ''1001''"
  by code_simp

section \<open>Properties of the Service\<close>



section \<open>Properties of the inspection handlers\<close>

subsection \<open>The calls of a listing\<close>

lemma snd_andThen:
  "snd (andThen m f) = (case fst m of Inl e \<Rightarrow> snd m | Inr a \<Rightarrow> snd m @ snd (f a))"
  by (cases m) (auto simp: andThen_def split: sum.splits prod.splits)

lemma fst_andThen:
  "fst (andThen m f) = (case fst m of Inl e \<Rightarrow> Inl e | Inr a \<Rightarrow> fst (f a))"
  by (cases m) (auto simp: andThen_def split: sum.splits prod.splits)

lemma snd_listed: "snd (listed m) = snd m"
  by (cases m) (auto simp: listed_def split: sum.splits)

lemma snd_clusterList: "snd (clusterList cs kd ns opts objs) = [CallList kd ns opts]"
  by (simp add: clusterList_def)

lemma getFiltered_calls:
  "snd (getFilteredDeployments x i flt) = [CallList KDeployment (ViceNamespace i) (getListOptions x flt [])]"
  "snd (getFilteredPods x i flt) = [CallList KPod (ViceNamespace i) (getListOptions x flt [])]"
  "snd (getFilteredConfigMaps x i flt) = [CallList KConfigMap (ViceNamespace i) (getListOptions x flt [])]"
  "snd (getFilteredServices x i flt) = [CallList KService (ViceNamespace i) (getListOptions x flt [])]"
  "snd (getFilteredIngresses x i flt) = [CallList KIngress (ViceNamespace i) (getListOptions x flt [])]"
  by (simp_all add: getFilteredDeployments_def getFilteredPods_def getFilteredConfigMaps_def
      getFilteredServices_def getFilteredIngresses_def snd_andThen snd_listed snd_clusterList
      deploymentList_def podList_def configmapsList_def serviceList_def ingressList_def
      split: sum.splits)

lemma doResourceListing_calls:
  "call \<in> set (snd (doResourceListing x i flt)) \<Longrightarrow>
   \<exists>kd. call = CallList kd (ViceNamespace i) (getListOptions x flt [])"
  by (auto simp: doResourceListing_def snd_andThen getFiltered_calls split: sum.splits)

lemma doResourceListing_first_call:
  "\<exists>rest. snd (doResourceListing x i flt)
            = CallList KDeployment (ViceNamespace i) (getListOptions x flt []) # rest"
  by (auto simp: doResourceListing_def snd_andThen getFiltered_calls split: sum.splits)

lemma firstValue_Cons:
  "firstValue ((key, vs) # rest) =
     (case vs of [] \<Rightarrow> (firstValue rest)(key := None) | v0 # others \<Rightarrow> (firstValue rest)(key \<mapsto> v0))"
proof (rule ext)
  fix k
  show "firstValue ((key, vs) # rest) k =
     (case vs of [] \<Rightarrow> (firstValue rest)(key := None) | v0 # others \<Rightarrow> (firstValue rest)(key \<mapsto> v0)) k"
    by (cases vs) (simp_all add: firstValue_def)
qed

lemma dom_firstValue: "dom (firstValue values) \<subseteq> fst ` set values"
proof
  fix k assume "k \<in> dom (firstValue values)"
  then obtain vs where "map_of values k = Some vs"
    by (auto simp: firstValue_def split: option.splits)
  then have "(k, vs) \<in> set values" by (rule map_of_SomeD)
  then show "k \<in> fst ` set values" by force
qed


lemma filterMapLoop_ok:
  assumes "distinct (map fst vals)" and "list_all (\<lambda>(key, vs). vs \<noteq> []) vals"
  shows "\<exists>q. filterMapLoop vals q0 = Inr q \<and> map_of q = map_of q0 ++ firstValue vals"
  using assms
proof (induction vals arbitrary: q0)
  case Nil
  have "firstValue [] = Map.empty" by (rule ext) (simp add: firstValue_def)
  then show ?case by simp
next
  case (Cons kv vals)
  obtain key vs where kv: "kv = (key, vs)" by (cases kv)
  from Cons.prems(2) obtain v0 others where vs: "vs = v0 # others"
    by (cases vs) (simp_all add: kv)
  have "key \<notin> fst ` set vals" using Cons.prems(1) by (simp add: kv)
  then have fresh: "key \<notin> dom (firstValue vals)"
    using dom_firstValue [of vals] by blast
  have d: "distinct (map fst vals)" using Cons.prems(1) by simp
  have n: "list_all (\<lambda>(key, vs). vs \<noteq> []) vals" using Cons.prems(2) by simp
  from Cons.IH [OF d n, of "AList.update key v0 q0"]
  obtain q where q: "filterMapLoop vals (AList.update key v0 q0) = Inr q"
    and mq: "map_of q = map_of (AList.update key v0 q0) ++ firstValue vals" by blast
  have fv: "firstValue (kv # vals) = (firstValue vals)(key \<mapsto> v0)"
    by (simp add: kv vs firstValue_Cons)
  have "map_of q = (map_of q0)(key \<mapsto> v0) ++ firstValue vals"
    by (simp only: mq update_conv')
  also have "\<dots> = (map_of q0 ++ firstValue vals)(key \<mapsto> v0)"
    using fresh by (rule map_add_upd_left)
  also have "\<dots> = map_of q0 ++ firstValue (kv # vals)"
    by (simp only: fv map_add_upd)
  finally have "map_of q = map_of q0 ++ firstValue (kv # vals)" .
  moreover have "filterMapLoop (kv # vals) q0 = Inr q"
    using q by (simp add: kv vs)
  ultimately show ?case by blast
qed

lemma filterMap_ok:
  assumes "distinct (map fst vals)" and "list_all (\<lambda>(key, vs). vs \<noteq> []) vals"
  shows "\<exists>q. filterMap vals = Inr q \<and> map_of q = firstValue vals"
  using filterMapLoop_ok [OF assms, of "[]"] by (simp add: filterMap_def)


lemma Equals_in_map:
  "Equals key v \<in> set (map (\<lambda>(a, b). Equals a b) xs) \<longleftrightarrow> (key, v) \<in> set xs"
  by (induction xs) auto

lemma getListSelector_Equals:
  "Equals key v \<in> set (getListSelector flt)
     \<longleftrightarrow> ([''app-type'' \<mapsto> ''interactive''] ++ map_of flt) key = Some v"
proof -
  let ?merged = "AList.merge [(''app-type'', ''interactive'')] flt"
  have d: "distinct (map fst ?merged)" by (rule distinct_merge) simp
  have "Equals key v \<in> set (getListSelector flt) \<longleftrightarrow> (key, v) \<in> set ?merged"
    unfolding getListSelector_def by (rule Equals_in_map)
  also have "\<dots> \<longleftrightarrow> map_of ?merged key = Some v"
    using d by simp
  also have "map_of ?merged = [''app-type'' \<mapsto> ''interactive''] ++ map_of flt"
    by (simp add: merge_conv')
  finally show ?thesis .
qed

lemma getListSelector_DoesNotExist: "DoesNotExist key \<notin> set (getListSelector flt)"
  unfolding getListSelector_def by auto

lemma getListOptions_no_missing:
  "getListOptions x flt [] = \<lparr>LabelSelector = getListSelector flt\<rparr>"
  by (simp add: getListOptions_def)

lemma QueryParam_firstValue:
  "QueryParam c name = (case firstValue (queryValues c) name of None \<Rightarrow> [] | Some v \<Rightarrow> v)"
  by (simp add: QueryParam_def firstValue_def split: option.splits list.splits)

subsection \<open>Requests without a user\<close>

lemma QueryParam_empty_iff:
  "QueryParam c name = [] \<longleftrightarrow>
     map_of (queryValues c) name = None \<or> map_of (queryValues c) name = Some []
     \<or> (\<exists>others. map_of (queryValues c) name = Some ([] # others))"
  by (auto simp: QueryParam_def split: option.splits list.splits)

text \<open>
  C9. When the \<open>user\<close> query parameter is absent or empty, the description handler and the
  composite resources handler both answer with the HTTP error 400 and the message
  \<open>user query parameter must be set\<close>, and have called neither Apps nor Permissions nor the
  cluster: the list of their calls is empty.
\<close>

theorem missing_user_is_bad_request:
  assumes "QueryParam c ''user'' = []"
  shows "DescribeAnalysisHandler x i c
           = (Inl (Err (HTTPError 400 ''user query parameter must be set'')), [])
       \<and> FilterableResourcesHandler x i c
           = (Inl (Err (HTTPError 400 ''user query parameter must be set'')), [])"
  using assms by (simp add: DescribeAnalysisHandler_def FilterableResourcesHandler_def)

text \<open>A request with no \<open>user\<close> parameter, and one with \<open>user=\<close>.\<close>

theorem missing_user_is_bad_request_witness:
  "QueryParam (exampleContext ''auid-aliceabc123'' [(''external-id'', [''abc123''])]) ''user'' = []
   \<and> DescribeAnalysisHandler exampleExternals (exampleIncluster clusterRunning)
        (exampleContext ''auid-aliceabc123'' [(''external-id'', [''abc123''])])
       = (Inl (Err (HTTPError 400 ''user query parameter must be set'')), [])
   \<and> QueryParam (exampleContext [] [(''user'', [[]])]) ''user'' = []
   \<and> FilterableResourcesHandler exampleExternals (exampleIncluster clusterRunning)
        (exampleContext [] [(''user'', [[]])])
       = (Inl (Err (HTTPError 400 ''user query parameter must be set'')), [])"
proof -
  have h1: "QueryParam (exampleContext ''auid-aliceabc123'' [(''external-id'', [''abc123''])]) ''user'' = []"
    by code_simp
  have h2: "QueryParam (exampleContext [] [(''user'', [[]])]) ''user'' = []"
    by code_simp
  show ?thesis
    using h1 h2
      missing_user_is_bad_request [OF h1, of exampleExternals "exampleIncluster clusterRunning"]
      missing_user_is_bad_request [OF h2, of exampleExternals "exampleIncluster clusterRunning"]
    by blast
qed

subsection \<open>The user parameter of a listing\<close>

lemma FilterableResourcesHandler_known_user:
  assumes "QueryParam c ''user'' \<noteq> []"
    and "GetUserID (apps i) (FixUsername x (QueryParam c ''user'') (UserSuffix i)) = Inr userID"
    and "filterMap (queryValues c) = Inr q"
  shows "snd (FilterableResourcesHandler x i c)
           = CallGetUserID (FixUsername x (QueryParam c ''user'') (UserSuffix i))
             # snd (doResourceListing x i (AList.update ''user-id'' userID (AList.delete ''user'' q)))"
  using assms
  by (simp add: FilterableResourcesHandler_def fixUsername_def Let_def split: prod.splits sum.splits)

text \<open>
  C3, as amended. On the composite resources endpoint (\<open>FilterableResourcesHandler\<close>), for a
  request with a non-empty \<open>user\<close> parameter (the query values being those of a parsed
  query string: distinct keys, no empty value list): the username with the configured
  \<open>UserSuffix\<close> applied is looked up in Apps; if Apps does not know it the answer is 404;
  if Apps returns a user id, every List call that follows carries the selector made of the
  first value of each query key, without the key \<open>user\<close>, with \<open>user-id\<close> set to the
  resolved id, over the default \<open>app-type=interactive\<close>.
\<close>

theorem composite_listing_resolves_user:
  assumes user: "QueryParam c ''user'' \<noteq> []"
    and keys: "distinct (map fst (queryValues c))"
    and vals: "list_all (\<lambda>(key, vs). vs \<noteq> []) (queryValues c)"
  shows "(GetUserID (apps i) (FixUsername x (QueryParam c ''user'') (UserSuffix i)) = Inl ErrNoRows \<longrightarrow>
            FilterableResourcesHandler x i c
              = (Inl (Err (HTTPError 404
                   (''user '' @ FixUsername x (QueryParam c ''user'') (UserSuffix i) @ '' not found''))),
                 [CallGetUserID (FixUsername x (QueryParam c ''user'') (UserSuffix i))]))
       \<and> (\<forall>userID. GetUserID (apps i) (FixUsername x (QueryParam c ''user'') (UserSuffix i)) = Inr userID \<longrightarrow>
            (\<exists>lists. snd (FilterableResourcesHandler x i c)
                        = CallGetUserID (FixUsername x (QueryParam c ''user'') (UserSuffix i)) # lists
               \<and> lists \<noteq> []
               \<and> (\<forall>cl\<in>set lists. \<exists>kd sel.
                     cl = CallList kd (ViceNamespace i) \<lparr>LabelSelector = sel\<rparr>
                     \<and> (\<forall>key. DoesNotExist key \<notin> set sel)
                     \<and> (\<forall>key v. Equals key v \<in> set sel \<longleftrightarrow>
                           ([''app-type'' \<mapsto> ''interactive'']
                            ++ (firstValue (queryValues c))(''user'' := None, ''user-id'' \<mapsto> userID)) key
                           = Some v))))"
proof (intro conjI impI allI)
  assume "GetUserID (apps i) (FixUsername x (QueryParam c ''user'') (UserSuffix i)) = Inl ErrNoRows"
  then show "FilterableResourcesHandler x i c
              = (Inl (Err (HTTPError 404
                   (''user '' @ FixUsername x (QueryParam c ''user'') (UserSuffix i) @ '' not found''))),
                 [CallGetUserID (FixUsername x (QueryParam c ''user'') (UserSuffix i))])"
    using user by (simp add: FilterableResourcesHandler_def fixUsername_def Let_def)
next
  fix userID
  assume known: "GetUserID (apps i) (FixUsername x (QueryParam c ''user'') (UserSuffix i)) = Inr userID"
  from filterMap_ok [OF keys vals] obtain q where
    q: "filterMap (queryValues c) = Inr q" and mq: "map_of q = firstValue (queryValues c)" by blast
  define flt where "flt = AList.update ''user-id'' userID (AList.delete ''user'' q)"
  have mflt: "map_of flt = (firstValue (queryValues c))(''user'' := None, ''user-id'' \<mapsto> userID)"
    by (simp add: flt_def update_conv' delete_conv' mq)
  let ?lists = "snd (doResourceListing x i flt)"
  have trace: "snd (FilterableResourcesHandler x i c)
                 = CallGetUserID (FixUsername x (QueryParam c ''user'') (UserSuffix i)) # ?lists"
    unfolding flt_def by (rule FilterableResourcesHandler_known_user [OF user known q])
  have nonempty: "?lists \<noteq> []"
    using doResourceListing_first_call [of x i flt] by auto
  have each: "\<forall>cl\<in>set ?lists. \<exists>kd sel.
                     cl = CallList kd (ViceNamespace i) \<lparr>LabelSelector = sel\<rparr>
                     \<and> (\<forall>key. DoesNotExist key \<notin> set sel)
                     \<and> (\<forall>key v. Equals key v \<in> set sel \<longleftrightarrow>
                           ([''app-type'' \<mapsto> ''interactive'']
                            ++ (firstValue (queryValues c))(''user'' := None, ''user-id'' \<mapsto> userID)) key
                           = Some v)"
  proof
    fix cl assume "cl \<in> set ?lists"
    from doResourceListing_calls [OF this] obtain kd where
      cl: "cl = CallList kd (ViceNamespace i) \<lparr>LabelSelector = getListSelector flt\<rparr>"
      by (auto simp: getListOptions_no_missing)
    have "\<forall>key. DoesNotExist key \<notin> set (getListSelector flt)"
      by (simp add: getListSelector_DoesNotExist)
    moreover have "\<forall>key v. Equals key v \<in> set (getListSelector flt) \<longleftrightarrow>
                           ([''app-type'' \<mapsto> ''interactive'']
                            ++ (firstValue (queryValues c))(''user'' := None, ''user-id'' \<mapsto> userID)) key
                           = Some v"
      by (simp only: getListSelector_Equals mflt) simp
    ultimately show "\<exists>kd sel.
                     cl = CallList kd (ViceNamespace i) \<lparr>LabelSelector = sel\<rparr>
                     \<and> (\<forall>key. DoesNotExist key \<notin> set sel)
                     \<and> (\<forall>key v. Equals key v \<in> set sel \<longleftrightarrow>
                           ([''app-type'' \<mapsto> ''interactive'']
                            ++ (firstValue (queryValues c))(''user'' := None, ''user-id'' \<mapsto> userID)) key
                           = Some v)"
      using cl by blast
  qed
  show "\<exists>lists. snd (FilterableResourcesHandler x i c)
                        = CallGetUserID (FixUsername x (QueryParam c ''user'') (UserSuffix i)) # lists
               \<and> lists \<noteq> []
               \<and> (\<forall>cl\<in>set lists. \<exists>kd sel.
                     cl = CallList kd (ViceNamespace i) \<lparr>LabelSelector = sel\<rparr>
                     \<and> (\<forall>key. DoesNotExist key \<notin> set sel)
                     \<and> (\<forall>key v. Equals key v \<in> set sel \<longleftrightarrow>
                           ([''app-type'' \<mapsto> ''interactive'']
                            ++ (firstValue (queryValues c))(''user'' := None, ''user-id'' \<mapsto> userID)) key
                           = Some v))"
    using trace nonempty each by blast
qed

text \<open>The request \<open>?user=alice&external-id=abc123\<close>, and a request of the unknown user
  \<open>ghost\<close>.\<close>

theorem composite_listing_resolves_user_witness:
  "QueryParam (exampleContext [] [(''user'', [''alice'']), (''external-id'', [''abc123''])]) ''user'' = ''alice''
   \<and> distinct (map fst (queryValues (exampleContext [] [(''user'', [''alice'']), (''external-id'', [''abc123''])])))
   \<and> list_all (\<lambda>(key, vs). vs \<noteq> [])
        (queryValues (exampleContext [] [(''user'', [''alice'']), (''external-id'', [''abc123''])]))
   \<and> FixUsername exampleExternals ''alice'' (UserSuffix (exampleIncluster clusterRunning)) = ''alice@example.org''
   \<and> GetUserID (apps (exampleIncluster clusterRunning)) ''alice@example.org'' = Inr ''uid-alice''
   \<and> (\<exists>lists. snd (FilterableResourcesHandler exampleExternals (exampleIncluster clusterRunning)
                      (exampleContext [] [(''user'', [''alice'']), (''external-id'', [''abc123''])]))
                 = CallGetUserID ''alice@example.org'' # lists
          \<and> lists \<noteq> []
          \<and> (\<forall>cl\<in>set lists. \<exists>kd sel.
                 cl = CallList kd (ViceNamespace (exampleIncluster clusterRunning)) \<lparr>LabelSelector = sel\<rparr>
                 \<and> (\<forall>key. DoesNotExist key \<notin> set sel)
                 \<and> (\<forall>key v. Equals key v \<in> set sel \<longleftrightarrow>
                       ([''app-type'' \<mapsto> ''interactive'']
                        ++ (firstValue (queryValues
                               (exampleContext [] [(''user'', [''alice'']), (''external-id'', [''abc123''])])))
                           (''user'' := None, ''user-id'' \<mapsto> ''uid-alice'')) key
                       = Some v)))
   \<and> snd (FilterableResourcesHandler exampleExternals (exampleIncluster clusterRunning)
            (exampleContext [] [(''user'', [''alice'']), (''external-id'', [''abc123''])]))
       = CallGetUserID ''alice@example.org''
         # listCalls [Equals ''app-type'' ''interactive'', Equals ''user-id'' ''uid-alice'',
                      Equals ''external-id'' ''abc123'']
   \<and> QueryParam (exampleContext [] [(''user'', [''ghost''])]) ''user'' = ''ghost''
   \<and> GetUserID (apps (exampleIncluster clusterRunning)) ''ghost@example.org'' = Inl ErrNoRows
   \<and> FilterableResourcesHandler exampleExternals (exampleIncluster clusterRunning)
        (exampleContext [] [(''user'', [''ghost''])])
       = (Inl (Err (HTTPError 404 ''user ghost@example.org not found'')),
          [CallGetUserID ''ghost@example.org''])"
proof -
  let ?i = "exampleIncluster clusterRunning"
  let ?cA = "exampleContext [] [(''user'', [''alice'']), (''external-id'', [''abc123''])]"
  let ?cG = "exampleContext [] [(''user'', [''ghost''])]"
  have qa: "QueryParam ?cA ''user'' = ''alice''" by code_simp
  have qg: "QueryParam ?cG ''user'' = ''ghost''" by code_simp
  have ua: "QueryParam ?cA ''user'' \<noteq> []" by (simp only: qa) simp
  have ug: "QueryParam ?cG ''user'' \<noteq> []" by (simp only: qg) simp
  have da: "distinct (map fst (queryValues ?cA))" by code_simp
  have dg: "distinct (map fst (queryValues ?cG))" by code_simp
  have la: "list_all (\<lambda>(key, vs). vs \<noteq> []) (queryValues ?cA)" by code_simp
  have lg: "list_all (\<lambda>(key, vs). vs \<noteq> []) (queryValues ?cG)" by code_simp
  have fa: "FixUsername exampleExternals ''alice'' (UserSuffix ?i) = ''alice@example.org''" by code_simp
  have fg: "FixUsername exampleExternals ''ghost'' (UserSuffix ?i) = ''ghost@example.org''" by code_simp
  have ga: "GetUserID (apps ?i) ''alice@example.org'' = Inr ''uid-alice''" by code_simp
  have gg: "GetUserID (apps ?i) ''ghost@example.org'' = Inl ErrNoRows" by code_simp
  have tr: "snd (FilterableResourcesHandler exampleExternals ?i ?cA)
       = CallGetUserID ''alice@example.org''
         # listCalls [Equals ''app-type'' ''interactive'', Equals ''user-id'' ''uid-alice'',
                      Equals ''external-id'' ''abc123'']"
    by code_simp
  note A = composite_listing_resolves_user [OF ua da la, of ?i exampleExternals, unfolded qa fa]
  note G = composite_listing_resolves_user [OF ug dg lg, of ?i exampleExternals, unfolded qg fg]
  from A ga have cA: "\<exists>lists. snd (FilterableResourcesHandler exampleExternals ?i ?cA)
                 = CallGetUserID ''alice@example.org'' # lists
          \<and> lists \<noteq> []
          \<and> (\<forall>cl\<in>set lists. \<exists>kd sel.
                 cl = CallList kd (ViceNamespace ?i) \<lparr>LabelSelector = sel\<rparr>
                 \<and> (\<forall>key. DoesNotExist key \<notin> set sel)
                 \<and> (\<forall>key v. Equals key v \<in> set sel \<longleftrightarrow>
                       ([''app-type'' \<mapsto> ''interactive'']
                        ++ (firstValue (queryValues ?cA))
                           (''user'' := None, ''user-id'' \<mapsto> ''uid-alice'')) key
                       = Some v))"
    by blast
  from G gg have cG: "FilterableResourcesHandler exampleExternals ?i ?cG
       = (Inl (Err (HTTPError 404 (''user '' @ ''ghost@example.org'' @ '' not found''))),
          [CallGetUserID ''ghost@example.org''])"
    by blast
  then have cG': "FilterableResourcesHandler exampleExternals ?i ?cG
       = (Inl (Err (HTTPError 404 ''user ghost@example.org not found'')),
          [CallGetUserID ''ghost@example.org''])"
    by simp
  show ?thesis
    using qa da la fa ga cA tr qg gg cG' by blast
qed

text \<open>The listing handlers of one kind call the cluster only, with the selector of the
  whole query.\<close>

lemma per_kind_handlers_calls:
  assumes "filterMap (queryValues c) = Inr flt"
  shows "snd (FilterableDeploymentsHandler x i c)
           = [CallList KDeployment (ViceNamespace i) (getListOptions x flt [])]"
    and "snd (FilterablePodsHandler x i c)
           = [CallList KPod (ViceNamespace i) (getListOptions x flt [])]"
    and "snd (FilterableConfigMapsHandler x i c)
           = [CallList KConfigMap (ViceNamespace i) (getListOptions x flt [])]"
    and "snd (FilterableServicesHandler x i c)
           = [CallList KService (ViceNamespace i) (getListOptions x flt [])]"
    and "snd (FilterableIngressesHandler x i c)
           = [CallList KIngress (ViceNamespace i) (getListOptions x flt [])]"
  using assms
  by (simp_all add: FilterableDeploymentsHandler_def FilterablePodsHandler_def
      FilterableConfigMapsHandler_def FilterableServicesHandler_def FilterableIngressesHandler_def
      snd_andThen getFiltered_calls split: sum.splits)

text \<open>
  C3 as stated fails for the listing endpoints of one kind: \<open>FilterableDeploymentsHandler\<close>
  given \<open>?user=ghost\<close>, a user Apps does not know, answers 200, asks Apps nothing, and
  sends the selector \<open>app-type=interactive,user=ghost\<close> to the cluster.
\<close>

theorem listing_user_parameter_counterexample:
  "GetUserID (apps (exampleIncluster clusterRunning))
     (FixUsername exampleExternals ''ghost'' (UserSuffix (exampleIncluster clusterRunning)))
     = Inl ErrNoRows
   \<and> FilterableDeploymentsHandler exampleExternals (exampleIncluster clusterRunning)
        (exampleContext [] [(''user'', [''ghost''])])
       = (Inr (JSON 200 (DeploymentsBody [])),
          [CallList KDeployment ''vice-apps''
             \<lparr>LabelSelector = [Equals ''app-type'' ''interactive'', Equals ''user'' ''ghost'']\<rparr>])"
  by code_simp

subsection \<open>The permission gate\<close>

lemma doResourceListing_no_permission_check:
  "cl \<in> set (snd (doResourceListing x i flt)) \<Longrightarrow> \<not> isPermissionCheck cl"
  using doResourceListing_calls [of cl x i flt] by (auto simp: isPermissionCheck_def)

text \<open>
  C4, as amended. On the description endpoint (\<open>DescribeAnalysisHandler\<close>), once the user is
  known to Apps and the listing for the subdomain has succeeded: when the listing has no
  deployment, the handler answers 200 with the listing and makes no permission check
  (neither the lookup of the analysis id nor a call to Permissions). When it has a
  deployment, the \<open>external-id\<close> of the first one is looked up in Apps; if the lookup
  fails, its error is returned and Permissions is not asked; otherwise Permissions is asked
  whether the requesting user may access that analysis, and the handler returns the error
  of Permissions if the call fails, answers 403 on denial, and answers 200 with the listing
  on permission only.
\<close>

theorem describe_permission_gate:
  assumes user: "QueryParam c ''user'' = user" "user \<noteq> []"
    and known: "GetUserID (apps i) (FixUsername x user (UserSuffix i)) = Inr userID"
    and listing: "doResourceListing x i [(''subdomain'', Param c ''host'')] = (Inr listing, t)"
  shows "(Deployments listing = [] \<longrightarrow>
            DescribeAnalysisHandler x i c
              = (Inr (JSON 200 (ResourceBody listing)),
                 CallGetUserID (FixUsername x user (UserSuffix i)) # t)
            \<and> list_all (\<lambda>cl. \<not> isPermissionCheck cl) (snd (DescribeAnalysisHandler x i c)))
       \<and> (\<forall>deployment0 others.
            Deployments listing = deployment0 # others \<longrightarrow>
              (\<forall>err. GetAnalysisIDByExternalID (apps i) (ExternalID deployment0) = Inl err \<longrightarrow>
                 DescribeAnalysisHandler x i c
                   = (Inl (Err err),
                      CallGetUserID (FixUsername x user (UserSuffix i)) # t
                      @ [CallGetAnalysisIDByExternalID (ExternalID deployment0)]))
            \<and> (\<forall>analysisID.
                 GetAnalysisIDByExternalID (apps i) (ExternalID deployment0) = Inr analysisID \<longrightarrow>
                   snd (DescribeAnalysisHandler x i c)
                     = CallGetUserID (FixUsername x user (UserSuffix i)) # t
                       @ [CallGetAnalysisIDByExternalID (ExternalID deployment0),
                          CallIsAllowed (PermissionsURL i) user analysisID]
                   \<and> (\<forall>err. IsAllowed x (PermissionsURL i) user analysisID = Inl err \<longrightarrow>
                        fst (DescribeAnalysisHandler x i c) = Inl (Err err))
                   \<and> (IsAllowed x (PermissionsURL i) user analysisID = Inr False \<longrightarrow>
                        fst (DescribeAnalysisHandler x i c)
                          = Inl (Err (HTTPError 403
                              (''user '' @ user @ '' cannot access analysis '' @ analysisID))))
                   \<and> (IsAllowed x (PermissionsURL i) user analysisID = Inr True \<longrightarrow>
                        fst (DescribeAnalysisHandler x i c)
                          = Inr (JSON 200 (ResourceBody listing)))))"
proof (intro conjI impI allI)
  assume empty: "Deployments listing = []"
  show eq: "DescribeAnalysisHandler x i c
              = (Inr (JSON 200 (ResourceBody listing)),
                 CallGetUserID (FixUsername x user (UserSuffix i)) # t)"
    using user known listing empty
    by (simp add: DescribeAnalysisHandler_def fixUsername_def Let_def)
  have "\<forall>cl\<in>set t. \<not> isPermissionCheck cl"
    using doResourceListing_no_permission_check [of _ x i "[(''subdomain'', Param c ''host'')]"]
    by (simp add: listing)
  then show "list_all (\<lambda>cl. \<not> isPermissionCheck cl) (snd (DescribeAnalysisHandler x i c))"
    by (simp add: eq list_all_iff isPermissionCheck_def)
next
  fix deployment0 others err
  assume "Deployments listing = deployment0 # others"
    and "GetAnalysisIDByExternalID (apps i) (ExternalID deployment0) = Inl err"
  then show "DescribeAnalysisHandler x i c
                   = (Inl (Err err),
                      CallGetUserID (FixUsername x user (UserSuffix i)) # t
                      @ [CallGetAnalysisIDByExternalID (ExternalID deployment0)])"
    using user known listing
    by (simp add: DescribeAnalysisHandler_def fixUsername_def Let_def)
next
  fix deployment0 others analysisID
  assume "Deployments listing = deployment0 # others"
    and "GetAnalysisIDByExternalID (apps i) (ExternalID deployment0) = Inr analysisID"
  then show "snd (DescribeAnalysisHandler x i c)
                     = CallGetUserID (FixUsername x user (UserSuffix i)) # t
                       @ [CallGetAnalysisIDByExternalID (ExternalID deployment0),
                          CallIsAllowed (PermissionsURL i) user analysisID]"
    using user known listing
    by (simp add: DescribeAnalysisHandler_def fixUsername_def Let_def split: sum.splits)
next
  fix deployment0 others analysisID err
  assume "Deployments listing = deployment0 # others"
    and "GetAnalysisIDByExternalID (apps i) (ExternalID deployment0) = Inr analysisID"
    and "IsAllowed x (PermissionsURL i) user analysisID = Inl err"
  then show "fst (DescribeAnalysisHandler x i c) = Inl (Err err)"
    using user known listing
    by (simp add: DescribeAnalysisHandler_def fixUsername_def Let_def)
next
  fix deployment0 others analysisID
  assume "Deployments listing = deployment0 # others"
    and "GetAnalysisIDByExternalID (apps i) (ExternalID deployment0) = Inr analysisID"
    and "IsAllowed x (PermissionsURL i) user analysisID = Inr False"
  then show "fst (DescribeAnalysisHandler x i c)
                          = Inl (Err (HTTPError 403
                              (''user '' @ user @ '' cannot access analysis '' @ analysisID)))"
    using user known listing
    by (simp add: DescribeAnalysisHandler_def fixUsername_def Let_def)
next
  fix deployment0 others analysisID
  assume "Deployments listing = deployment0 # others"
    and "GetAnalysisIDByExternalID (apps i) (ExternalID deployment0) = Inr analysisID"
    and "IsAllowed x (PermissionsURL i) user analysisID = Inr True"
  then show "fst (DescribeAnalysisHandler x i c) = Inr (JSON 200 (ResourceBody listing))"
    using user known listing
    by (simp add: DescribeAnalysisHandler_def fixUsername_def Let_def)
qed

text \<open>The user \<open>bob\<close> asking for the analysis of \<open>alice\<close> is refused; asking for a subdomain
  with no deployment, he gets the empty listing and nothing is checked; \<open>alice\<close> gets her
  listing; when Permissions cannot be reached its error is returned; and when Apps does
  not know the \<open>external-id\<close> of the deployment, the error of Apps is returned and
  Permissions is not asked.\<close>

theorem describe_permission_gate_witness:
  "doResourceListing exampleExternals (exampleIncluster clusterRunning)
       [(''subdomain'', Param (exampleContext ''auid-aliceabc123'' [(''user'', [''bob''])]) ''host'')]
     = (Inr runningListing,
        listCalls [Equals ''app-type'' ''interactive'', Equals ''subdomain'' ''auid-aliceabc123''])
   \<and> Deployments runningListing = [runningDeploymentInfo]
   \<and> IsAllowed exampleExternals ''http://permissions'' ''bob'' ''analysis-1'' = Inr False
   \<and> DescribeAnalysisHandler exampleExternals (exampleIncluster clusterRunning)
        (exampleContext ''auid-aliceabc123'' [(''user'', [''bob''])])
       = (Inl (Err (HTTPError 403 ''user bob cannot access analysis analysis-1'')),
          CallGetUserID ''bob@example.org''
          # listCalls [Equals ''app-type'' ''interactive'', Equals ''subdomain'' ''auid-aliceabc123'']
          @ [CallGetAnalysisIDByExternalID ''abc123'',
             CallIsAllowed ''http://permissions'' ''bob'' ''analysis-1''])
   \<and> doResourceListing exampleExternals (exampleIncluster clusterRunning)
       [(''subdomain'', Param (exampleContext ''nohost'' [(''user'', [''bob''])]) ''host'')]
     = (Inr emptyListing,
        listCalls [Equals ''app-type'' ''interactive'', Equals ''subdomain'' ''nohost''])
   \<and> Deployments emptyListing = []
   \<and> DescribeAnalysisHandler exampleExternals (exampleIncluster clusterRunning)
        (exampleContext ''nohost'' [(''user'', [''bob''])])
       = (Inr (JSON 200 (ResourceBody emptyListing)),
          CallGetUserID ''bob@example.org''
          # listCalls [Equals ''app-type'' ''interactive'', Equals ''subdomain'' ''nohost''])
   \<and> list_all (\<lambda>cl. \<not> isPermissionCheck cl)
        (snd (DescribeAnalysisHandler exampleExternals (exampleIncluster clusterRunning)
                (exampleContext ''nohost'' [(''user'', [''bob''])])))
   \<and> IsAllowed exampleExternals ''http://permissions'' ''alice'' ''analysis-1'' = Inr True
   \<and> fst (DescribeAnalysisHandler exampleExternals (exampleIncluster clusterRunning)
             (exampleContext ''auid-aliceabc123'' [(''user'', [''alice''])]))
       = Inr (JSON 200 (ResourceBody runningListing))
   \<and> IsAllowed unreachablePermissions ''http://permissions'' ''alice'' ''analysis-1''
       = Inl (Errorf ''connection refused'')
   \<and> fst (DescribeAnalysisHandler unreachablePermissions (exampleIncluster clusterRunning)
             (exampleContext ''auid-aliceabc123'' [(''user'', [''alice''])]))
       = Inl (Err (Errorf ''connection refused''))
   \<and> GetAnalysisIDByExternalID (apps (exampleIncluster clusterOrphan)) ''zzz999'' = Inl ErrNoRows
   \<and> DescribeAnalysisHandler exampleExternals (exampleIncluster clusterOrphan)
        (exampleContext ''auid-alicezzz999'' [(''user'', [''alice''])])
       = (Inl (Err ErrNoRows),
          CallGetUserID ''alice@example.org''
          # listCalls [Equals ''app-type'' ''interactive'', Equals ''subdomain'' ''auid-alicezzz999'']
          @ [CallGetAnalysisIDByExternalID ''zzz999''])"
proof -
  let ?i = "exampleIncluster clusterRunning"
  let ?o = "exampleIncluster clusterOrphan"
  let ?c1 = "exampleContext ''auid-aliceabc123'' [(''user'', [''bob''])]"
  let ?c2 = "exampleContext ''nohost'' [(''user'', [''bob''])]"
  let ?c3 = "exampleContext ''auid-aliceabc123'' [(''user'', [''alice''])]"
  let ?c4 = "exampleContext ''auid-alicezzz999'' [(''user'', [''alice''])]"
  let ?t1 = "listCalls [Equals ''app-type'' ''interactive'', Equals ''subdomain'' ''auid-aliceabc123'']"
  let ?t2 = "listCalls [Equals ''app-type'' ''interactive'', Equals ''subdomain'' ''nohost'']"
  let ?t4 = "listCalls [Equals ''app-type'' ''interactive'', Equals ''subdomain'' ''auid-alicezzz999'']"
  have q1: "QueryParam ?c1 ''user'' = ''bob''" by code_simp
  have q2: "QueryParam ?c2 ''user'' = ''bob''" by code_simp
  have q3: "QueryParam ?c3 ''user'' = ''alice''" by code_simp
  have q4: "QueryParam ?c4 ''user'' = ''alice''" by code_simp
  have ne: "''bob'' \<noteq> []" by simp
  have nea: "''alice'' \<noteq> []" by simp
  have fx: "FixUsername exampleExternals ''bob'' (UserSuffix ?i) = ''bob@example.org''" by code_simp
  have fxa: "FixUsername exampleExternals ''alice'' (UserSuffix ?i) = ''alice@example.org''"
    by code_simp
  have fxu: "FixUsername unreachablePermissions ''alice'' (UserSuffix ?i) = ''alice@example.org''"
    by code_simp
  have fxo: "FixUsername exampleExternals ''alice'' (UserSuffix ?o) = ''alice@example.org''"
    by code_simp
  have known: "GetUserID (apps ?i) (FixUsername exampleExternals ''bob'' (UserSuffix ?i)) = Inr ''uid-bob''"
    by code_simp
  have knowna: "GetUserID (apps ?i) (FixUsername exampleExternals ''alice'' (UserSuffix ?i)) = Inr ''uid-alice''"
    by code_simp
  have knownu: "GetUserID (apps ?i) (FixUsername unreachablePermissions ''alice'' (UserSuffix ?i)) = Inr ''uid-alice''"
    by code_simp
  have knowno: "GetUserID (apps ?o) (FixUsername exampleExternals ''alice'' (UserSuffix ?o)) = Inr ''uid-alice''"
    by code_simp
  have l1: "doResourceListing exampleExternals ?i [(''subdomain'', Param ?c1 ''host'')]
              = (Inr runningListing, ?t1)" by code_simp
  have l2: "doResourceListing exampleExternals ?i [(''subdomain'', Param ?c2 ''host'')]
              = (Inr emptyListing, ?t2)" by code_simp
  have l3: "doResourceListing exampleExternals ?i [(''subdomain'', Param ?c3 ''host'')]
              = (Inr runningListing, ?t1)" by code_simp
  have l3u: "doResourceListing unreachablePermissions ?i [(''subdomain'', Param ?c3 ''host'')]
              = (Inr runningListing, ?t1)" by code_simp
  have l4: "doResourceListing exampleExternals ?o [(''subdomain'', Param ?c4 ''host'')]
              = (Inr orphanListing, ?t4)" by code_simp
  have d1: "Deployments runningListing = [runningDeploymentInfo]" by (simp add: runningListing_def)
  have d2: "Deployments emptyListing = []" by (simp add: emptyListing_def)
  have d4: "Deployments orphanListing = [orphanDeploymentInfo]" by (simp add: orphanListing_def)
  have a1: "GetAnalysisIDByExternalID (apps ?i) (ExternalID runningDeploymentInfo) = Inr ''analysis-1''"
    by code_simp
  have a4: "GetAnalysisIDByExternalID (apps ?o) (ExternalID orphanDeploymentInfo) = Inl ErrNoRows"
    by code_simp
  have e1: "ExternalID runningDeploymentInfo = ''abc123''" by (simp add: runningDeploymentInfo_def)
  have e4: "ExternalID orphanDeploymentInfo = ''zzz999''" by (simp add: orphanDeploymentInfo_def)
  have p1: "IsAllowed exampleExternals (PermissionsURL ?i) ''bob'' ''analysis-1'' = Inr False"
    by code_simp
  have p3: "IsAllowed exampleExternals (PermissionsURL ?i) ''alice'' ''analysis-1'' = Inr True"
    by code_simp
  have p3u: "IsAllowed unreachablePermissions (PermissionsURL ?i) ''alice'' ''analysis-1''
               = Inl (Errorf ''connection refused'')"
    by code_simp
  have pu: "PermissionsURL ?i = ''http://permissions''" by (simp add: exampleIncluster_def)
  note G1 = describe_permission_gate [OF q1 ne known l1, unfolded fx]
  note G2 = describe_permission_gate [OF q2 ne known l2, unfolded fx]
  note G3 = describe_permission_gate [OF q3 nea knowna l3, unfolded fxa]
  note G3u = describe_permission_gate [OF q3 nea knownu l3u, unfolded fxu]
  note G4 = describe_permission_gate [OF q4 nea knowno l4, unfolded fxo]
  from G1 d1 a1 p1 have r1:
    "snd (DescribeAnalysisHandler exampleExternals ?i ?c1)
       = CallGetUserID ''bob@example.org'' # ?t1
         @ [CallGetAnalysisIDByExternalID (ExternalID runningDeploymentInfo),
            CallIsAllowed (PermissionsURL ?i) ''bob'' ''analysis-1'']"
    "fst (DescribeAnalysisHandler exampleExternals ?i ?c1)
       = Inl (Err (HTTPError 403 (''user '' @ ''bob'' @ '' cannot access analysis '' @ ''analysis-1'')))"
    by blast+
  have r1': "DescribeAnalysisHandler exampleExternals ?i ?c1
       = (Inl (Err (HTTPError 403 ''user bob cannot access analysis analysis-1'')),
          CallGetUserID ''bob@example.org'' # ?t1
          @ [CallGetAnalysisIDByExternalID ''abc123'',
             CallIsAllowed ''http://permissions'' ''bob'' ''analysis-1''])"
    using r1 by (simp add: prod_eq_iff e1 pu)
  from G2 d2 have r2:
    "DescribeAnalysisHandler exampleExternals ?i ?c2
       = (Inr (JSON 200 (ResourceBody emptyListing)), CallGetUserID ''bob@example.org'' # ?t2)"
    "list_all (\<lambda>cl. \<not> isPermissionCheck cl) (snd (DescribeAnalysisHandler exampleExternals ?i ?c2))"
    by blast+
  from G3 d1 a1 p3 have r3:
    "fst (DescribeAnalysisHandler exampleExternals ?i ?c3) = Inr (JSON 200 (ResourceBody runningListing))"
    by blast
  from G3u d1 a1 p3u have r3u:
    "fst (DescribeAnalysisHandler unreachablePermissions ?i ?c3) = Inl (Err (Errorf ''connection refused''))"
    by blast
  from G4 d4 a4 have r4:
    "DescribeAnalysisHandler exampleExternals ?o ?c4
       = (Inl (Err ErrNoRows),
          CallGetUserID ''alice@example.org'' # ?t4
          @ [CallGetAnalysisIDByExternalID (ExternalID orphanDeploymentInfo)])"
    by blast
  have a4': "GetAnalysisIDByExternalID (apps ?o) ''zzz999'' = Inl ErrNoRows"
    using a4 by (simp only: e4)
  show ?thesis
    using l1 d1 p1 r1' l2 d2 r2 p3 r3 p3u r3u a4' r4 by (simp only: pu e4) 
qed

text \<open>The composite resources handler never makes a permission check.\<close>

lemma FilterableResourcesHandler_no_permission_check:
  assumes "cl \<in> set (snd (FilterableResourcesHandler x i c))"
  shows "\<not> isPermissionCheck cl"
proof -
  have lists: "\<And>flt t r. doResourceListing x i flt = (r, t) \<Longrightarrow> cl \<in> set t \<Longrightarrow> \<not> isPermissionCheck cl"
    using doResourceListing_no_permission_check [of cl x i] by (metis snd_conv)
  show ?thesis
    using assms lists
    by (auto simp: FilterableResourcesHandler_def Let_def isPermissionCheck_def
        split: if_splits sum.splits prod.splits)
qed

text \<open>
  C4 as stated fails for the composite resources endpoint, which is not an admin
  endpoint: with a Permissions service that denies everything, \<open>FilterableResourcesHandler\<close>
  answers 200 with a listing that holds a deployment and never calls Permissions, where
  \<open>DescribeAnalysisHandler\<close> answers 403.
\<close>

theorem permission_gate_counterexample:
  "IsAllowed denyingExternals ''http://permissions'' ''alice'' ''analysis-1'' = Inr False
   \<and> IsAllowed denyingExternals ''http://permissions'' ''alice@example.org'' ''analysis-1'' = Inr False
   \<and> FilterableResourcesHandler denyingExternals (exampleIncluster clusterRunning)
        (exampleContext [] [(''user'', [''alice''])])
       = (Inr (JSON 200 (ResourceBody runningListing)),
          CallGetUserID ''alice@example.org''
          # listCalls [Equals ''app-type'' ''interactive'', Equals ''user-id'' ''uid-alice''])
   \<and> Deployments runningListing = [runningDeploymentInfo]
   \<and> DescribeAnalysisHandler denyingExternals (exampleIncluster clusterRunning)
        (exampleContext ''auid-aliceabc123'' [(''user'', [''alice''])])
       = (Inl (Err (HTTPError 403 ''user alice cannot access analysis analysis-1'')),
          CallGetUserID ''alice@example.org''
          # listCalls [Equals ''app-type'' ''interactive'', Equals ''subdomain'' ''auid-aliceabc123'']
          @ [CallGetAnalysisIDByExternalID ''abc123'',
             CallIsAllowed ''http://permissions'' ''alice'' ''analysis-1''])"
  by code_simp

section \<open>Properties of the label reconciler\<close>

subsection \<open>The updates of a sweep\<close>

lemma populateLoginIP_no_update: "filter isUpdate (snd (populateLoginIP i ls)) = []"
  by (simp add: populateLoginIP_def isUpdate_def split: option.splits sum.splits)

lemma populateAnalysisID_no_update: "filter isUpdate (snd (populateAnalysisID i ls)) = []"
  by (simp add: populateAnalysisID_def isUpdate_def split: option.splits sum.splits)

lemma isUpdate_simps:
  "isUpdate (CallUpdate kd ns name ls)"
  "\<not> isUpdate (CallList kd ns opts)"
  "\<not> isUpdate (CallGetUserID u)"
  "\<not> isUpdate (CallGetUserIP u)"
  "\<not> isUpdate (CallGetAnalysisIDByExternalID e)"
  "\<not> isUpdate (CallIsAllowed b u a)"
  by (simp_all add: isUpdate_def)

lemma snd_prepend:
  "snd (case p of (a, b) \<Rightarrow> (a, t @ b)) = t @ snd p"
  "snd (case p of (a, b) \<Rightarrow> (a, cl # b)) = cl # snd p"
  by (cases p; simp)+

lemma relabelLoop_updates:
  "filter isUpdate (snd (relabelLoop x i kd objs errs))
     = map (\<lambda>obj. CallUpdate kd (ViceNamespace i) (Name obj) (relabelled x i (Labels obj))) objs"
proof (induction objs arbitrary: errs)
  case Nil
  show ?case by simp
next
  case (Cons obj objs)
  obtain l1 e1 t1 where p1: "populateLoginIP i (populateSubdomain x (Labels obj)) = ((l1, e1), t1)"
    by (metis surj_pair)
  obtain l2 e2 t2 where p2: "populateAnalysisID i l1 = ((l2, e2), t2)"
    by (metis surj_pair)
  obtain errs' t3 where p3:
    "relabelLoop x i kd objs
       (appendError (appendError (appendError errs e1) e2) (updateError (clientset i) kd (Name obj)))
     = (errs', t3)"
    by (metis surj_pair)
  have n1: "filter isUpdate t1 = []" using populateLoginIP_no_update [of i "populateSubdomain x (Labels obj)"]
    by (simp add: p1)
  have n2: "filter isUpdate t2 = []" using populateAnalysisID_no_update [of i l1]
    by (simp add: p2)
  have n3: "filter isUpdate t3
     = map (\<lambda>obj. CallUpdate kd (ViceNamespace i) (Name obj) (relabelled x i (Labels obj))) objs"
    using Cons.IH [of "appendError (appendError (appendError errs e1) e2) (updateError (clientset i) kd (Name obj))"]
    by (simp add: p3)
  have l2: "relabelled x i (Labels obj) = l2"
    by (simp add: relabelled_def p1 p2)
  have tr: "snd (relabelLoop x i kd (obj # objs) errs)
          = t1 @ t2 @ [CallUpdate kd (ViceNamespace i) (Name obj) l2] @ t3"
    by (simp add: Let_def p1 p2 p3)
  have "filter isUpdate (snd (relabelLoop x i kd (obj # objs) errs))
          = filter isUpdate (t1 @ t2 @ [CallUpdate kd (ViceNamespace i) (Name obj) l2] @ t3)"
    by (simp only: tr)
  also have "\<dots> = CallUpdate kd (ViceNamespace i) (Name obj) l2
                   # map (\<lambda>obj. CallUpdate kd (ViceNamespace i) (Name obj)
                                 (relabelled x i (Labels obj))) objs"
    by (simp add: n1 n2 n3 isUpdate_simps)
  finally show ?case by (simp only: list.map l2)
qed

lemma sweep_selected:
  assumes "NewRequirementError x ''subdomain'' = None"
  shows "selected ns (getListOptions x [] [''subdomain'']) obj = lacksSubdomain ns obj"
  using assms
  by (simp add: selected_def getListOptions_def getListSelector_def AList.merge_def
      requirementHolds_def lacksSubdomain_def)

lemma sweep_list:
  assumes "NewRequirementError x ''subdomain'' = None" and "listError cs kd = None"
  shows "clusterList cs kd ns (getListOptions x [] [''subdomain'']) objs
           = (Inr (filter (lacksSubdomain ns) objs),
              [CallList kd ns (getListOptions x [] [''subdomain''])])"
proof -
  have "filter (selected ns (getListOptions x [] [''subdomain''])) objs
          = filter (lacksSubdomain ns) objs"
    by (rule filter_cong) (simp_all add: sweep_selected [OF assms(1)])
  then show ?thesis by (simp add: clusterList_def assms(2))
qed

subsection \<open>The labels a sweep fills in\<close>

lemma populateSubdomain_other:
  "key \<noteq> ''subdomain'' \<Longrightarrow> map_of (populateSubdomain x ls) key = map_of ls key"
  by (simp add: populateSubdomain_def update_conv' split: option.splits)

lemma populateLoginIP_other:
  "key \<noteq> ''login-ip'' \<Longrightarrow> map_of (fst (fst (populateLoginIP i ls))) key = map_of ls key"
  by (simp add: populateLoginIP_def update_conv' split: option.splits sum.splits)

lemma populateAnalysisID_other:
  "key \<noteq> ''analysis-id'' \<Longrightarrow> map_of (fst (fst (populateAnalysisID i ls))) key = map_of ls key"
  by (simp add: populateAnalysisID_def update_conv' split: option.splits sum.splits)

lemma populateSubdomain_sets:
  assumes "map_of ls ''subdomain'' = None" "map_of ls ''external-id'' = Some externalID"
    "map_of ls ''user-id'' = Some userID"
  shows "map_of (populateSubdomain x ls) ''subdomain'' = Some (IngressName x userID externalID)"
  using assms by (simp add: populateSubdomain_def update_conv')

lemma populateLoginIP_sets:
  assumes "map_of ls ''login-ip'' = None" "map_of ls ''user-id'' = Some userID"
    "GetUserIP (apps i) userID = Inr ipAddr"
  shows "map_of (fst (fst (populateLoginIP i ls))) ''login-ip'' = Some ipAddr"
  using assms by (simp add: populateLoginIP_def update_conv')

lemma populateAnalysisID_sets:
  assumes "map_of ls ''analysis-id'' = None" "map_of ls ''external-id'' = Some externalID"
    "GetAnalysisIDByExternalID (apps i) externalID = Inr analysisID"
  shows "map_of (fst (fst (populateAnalysisID i ls))) ''analysis-id'' = Some analysisID"
  using assms by (simp add: populateAnalysisID_def update_conv')

lemma relabelled_subdomain:
  assumes "map_of ls ''subdomain'' = None" "map_of ls ''external-id'' = Some externalID"
    "map_of ls ''user-id'' = Some userID"
  shows "map_of (relabelled x i ls) ''subdomain'' = Some (IngressName x userID externalID)"
  by (simp add: relabelled_def populateAnalysisID_other populateLoginIP_other
      populateSubdomain_sets [OF assms])

lemma relabelled_login_ip:
  assumes "map_of ls ''login-ip'' = None" "map_of ls ''user-id'' = Some userID"
    "GetUserIP (apps i) userID = Inr ipAddr"
  shows "map_of (relabelled x i ls) ''login-ip'' = Some ipAddr"
proof -
  have "map_of (populateSubdomain x ls) ''login-ip'' = None"
    "map_of (populateSubdomain x ls) ''user-id'' = Some userID"
    using assms by (simp_all add: populateSubdomain_other)
  from populateLoginIP_sets [OF this assms(3)] show ?thesis
    by (simp add: relabelled_def populateAnalysisID_other)
qed

lemma relabelled_analysis_id:
  assumes "map_of ls ''analysis-id'' = None" "map_of ls ''external-id'' = Some externalID"
    "GetAnalysisIDByExternalID (apps i) externalID = Inr analysisID"
  shows "map_of (relabelled x i ls) ''analysis-id'' = Some analysisID"
proof -
  have "map_of (fst (fst (populateLoginIP i (populateSubdomain x ls)))) ''analysis-id'' = None"
    "map_of (fst (fst (populateLoginIP i (populateSubdomain x ls)))) ''external-id'' = Some externalID"
    using assms by (simp_all add: populateSubdomain_other populateLoginIP_other)
  from populateAnalysisID_sets [OF this assms(3)] show ?thesis
    by (simp add: relabelled_def)
qed

text \<open>
  C5, as amended. When the four List calls succeed (and \<open>subdomain\<close> is accepted as a label
  key), the sweep \<open>ApplyAsyncLabels\<close> sends exactly one Update for every deployment, config
  map, service and ingress that bears \<open>app-type=interactive\<close> and lacks the \<open>subdomain\<close>
  label, in this order, and for no other object; the objects considered are those of the
  namespace \<open>ViceNamespace\<close>, and those of every namespace when \<open>ViceNamespace\<close> is empty
  (each Update is addressed to \<open>ViceNamespace\<close> as configured). The labels of each
  Update are those of the object after the three \<open>populate\<close> steps: \<open>subdomain\<close> is
  \<open>IngressName(user-id, external-id)\<close> when both are present; \<open>login-ip\<close> is what Apps'
  \<open>GetUserIP\<close> returns when the label is absent and \<open>user-id\<close> is present; \<open>analysis-id\<close> is
  what Apps' \<open>GetAnalysisIDByExternalID\<close> returns when the label is absent and \<open>external-id\<close>
  is present.
\<close>

theorem sweep_relabels_objects_lacking_subdomain:
  assumes "NewRequirementError x ''subdomain'' = None"
    and "listError (clientset i) KDeployment = None \<and> listError (clientset i) KConfigMap = None
         \<and> listError (clientset i) KService = None \<and> listError (clientset i) KIngress = None"
  shows "filter isUpdate (snd (ApplyAsyncLabels x i))
           = sweepUpdates x i KDeployment (clusterDeployments (clientset i))
             @ sweepUpdates x i KConfigMap (clusterConfigMaps (clientset i))
             @ sweepUpdates x i KService (clusterServices (clientset i))
             @ sweepUpdates x i KIngress (clusterIngresses (clientset i))
       \<and> (\<forall>ls externalID userID.
             map_of ls ''subdomain'' = None \<and> map_of ls ''external-id'' = Some externalID
             \<and> map_of ls ''user-id'' = Some userID
             \<longrightarrow> map_of (relabelled x i ls) ''subdomain'' = Some (IngressName x userID externalID))
       \<and> (\<forall>ls userID ipAddr.
             map_of ls ''login-ip'' = None \<and> map_of ls ''user-id'' = Some userID
             \<and> GetUserIP (apps i) userID = Inr ipAddr
             \<longrightarrow> map_of (relabelled x i ls) ''login-ip'' = Some ipAddr)
       \<and> (\<forall>ls externalID analysisID.
             map_of ls ''analysis-id'' = None \<and> map_of ls ''external-id'' = Some externalID
             \<and> GetAnalysisIDByExternalID (apps i) externalID = Inr analysisID
             \<longrightarrow> map_of (relabelled x i ls) ''analysis-id'' = Some analysisID)"
proof -
  have "snd (ApplyAsyncLabels x i)
          = snd (relabelDeployments x i) @ snd (relabelConfigMaps x i)
            @ snd (relabelServices x i) @ snd (relabelIngresses x i)"
    by (simp add: ApplyAsyncLabels_def split: prod.splits)
  moreover have "filter isUpdate (snd (relabelDeployments x i))
           = sweepUpdates x i KDeployment (clusterDeployments (clientset i))"
    using assms
    by (simp add: relabelDeployments_def deploymentList_def sweep_list sweepUpdates_def
        relabelLoop_updates isUpdate_simps snd_prepend)
  moreover have "filter isUpdate (snd (relabelConfigMaps x i))
           = sweepUpdates x i KConfigMap (clusterConfigMaps (clientset i))"
    using assms
    by (simp add: relabelConfigMaps_def configmapsList_def sweep_list sweepUpdates_def
        relabelLoop_updates isUpdate_simps snd_prepend)
  moreover have "filter isUpdate (snd (relabelServices x i))
           = sweepUpdates x i KService (clusterServices (clientset i))"
    using assms
    by (simp add: relabelServices_def serviceList_def sweep_list sweepUpdates_def
        relabelLoop_updates isUpdate_simps snd_prepend)
  moreover have "filter isUpdate (snd (relabelIngresses x i))
           = sweepUpdates x i KIngress (clusterIngresses (clientset i))"
    using assms
    by (simp add: relabelIngresses_def ingressList_def sweep_list sweepUpdates_def
        relabelLoop_updates isUpdate_simps snd_prepend)
  ultimately have updates: "filter isUpdate (snd (ApplyAsyncLabels x i))
           = sweepUpdates x i KDeployment (clusterDeployments (clientset i))
             @ sweepUpdates x i KConfigMap (clusterConfigMaps (clientset i))
             @ sweepUpdates x i KService (clusterServices (clientset i))
             @ sweepUpdates x i KIngress (clusterIngresses (clientset i))"
    by simp
  show ?thesis
    using updates relabelled_subdomain [of _ _ _ x i] relabelled_login_ip [of _ _ i _ x]
      relabelled_analysis_id [of _ _ i _ x]
    by blast
qed

text \<open>A deployment with only its base labels gets the three derived labels; the fully
  labelled deployment beside it is not touched. Of two unlabelled deployments in
  different namespaces, the sweep of \<open>vice-apps\<close> updates the one in \<open>vice-apps\<close>, and the
  sweep with the empty namespace updates both.\<close>

theorem sweep_relabels_objects_lacking_subdomain_witness:
  "NewRequirementError exampleExternals ''subdomain'' = None
   \<and> listError (clientset (exampleIncluster clusterToSweep)) KDeployment = None
   \<and> listError (clientset (exampleIncluster clusterToSweep)) KConfigMap = None
   \<and> listError (clientset (exampleIncluster clusterToSweep)) KService = None
   \<and> listError (clientset (exampleIncluster clusterToSweep)) KIngress = None
   \<and> filter isUpdate (snd (ApplyAsyncLabels exampleExternals (exampleIncluster clusterToSweep)))
       = [CallUpdate KDeployment ''vice-apps'' ''vice-abc123''
            [(''app-type'', ''interactive''), (''external-id'', ''abc123''),
             (''user-id'', ''uid-alice''), (''subdomain'', ''auid-aliceabc123''),
             (''login-ip'', ''10.0.0.7''), (''analysis-id'', ''analysis-1'')]]
   \<and> map_of baseLabels ''subdomain'' = None \<and> map_of baseLabels ''login-ip'' = None
   \<and> map_of baseLabels ''analysis-id'' = None
   \<and> map_of baseLabels ''external-id'' = Some ''abc123''
   \<and> map_of baseLabels ''user-id'' = Some ''uid-alice''
   \<and> map_of (relabelled exampleExternals (exampleIncluster clusterToSweep) baseLabels) ''subdomain''
       = Some (IngressName exampleExternals ''uid-alice'' ''abc123'')
   \<and> map_of (relabelled exampleExternals (exampleIncluster clusterToSweep) baseLabels) ''login-ip''
       = Some ''10.0.0.7''
   \<and> map_of (relabelled exampleExternals (exampleIncluster clusterToSweep) baseLabels) ''analysis-id''
       = Some ''analysis-1''
   \<and> map (\<lambda>d. (Name d, Namespace d)) (clusterDeployments clusterTwoNamespaces)
       = [(''vice-abc123'', ''vice-apps''), (''vice-elsewhere'', ''other-apps'')]
   \<and> listError (clientset (exampleIncluster clusterTwoNamespaces)) KDeployment = None
   \<and> listError (clientset (exampleIncluster clusterTwoNamespaces)) KConfigMap = None
   \<and> listError (clientset (exampleIncluster clusterTwoNamespaces)) KService = None
   \<and> listError (clientset (exampleIncluster clusterTwoNamespaces)) KIngress = None
   \<and> ViceNamespace (exampleIncluster clusterTwoNamespaces) = ''vice-apps''
   \<and> filter isUpdate
         (snd (ApplyAsyncLabels exampleExternals (exampleIncluster clusterTwoNamespaces)))
       = [CallUpdate KDeployment ''vice-apps'' ''vice-abc123'' relabelledBaseLabels]
   \<and> listError (clientset (allNamespacesIncluster clusterTwoNamespaces)) KDeployment = None
   \<and> listError (clientset (allNamespacesIncluster clusterTwoNamespaces)) KConfigMap = None
   \<and> listError (clientset (allNamespacesIncluster clusterTwoNamespaces)) KService = None
   \<and> listError (clientset (allNamespacesIncluster clusterTwoNamespaces)) KIngress = None
   \<and> ViceNamespace (allNamespacesIncluster clusterTwoNamespaces) = []
   \<and> filter isUpdate
         (snd (ApplyAsyncLabels exampleExternals (allNamespacesIncluster clusterTwoNamespaces)))
       = [CallUpdate KDeployment [] ''vice-abc123'' relabelledBaseLabels,
          CallUpdate KDeployment [] ''vice-elsewhere'' relabelledBaseLabels]"
proof -
  let ?i = "exampleIncluster clusterToSweep"
  let ?j = "exampleIncluster clusterTwoNamespaces"
  let ?k = "allNamespacesIncluster clusterTwoNamespaces"
  have two: "map (\<lambda>d. (Name d, Namespace d)) (clusterDeployments clusterTwoNamespaces)
       = [(''vice-abc123'', ''vice-apps''), (''vice-elsewhere'', ''other-apps'')]"
    by code_simp
  have j2: "listError (clientset ?j) KDeployment = None \<and> listError (clientset ?j) KConfigMap = None
         \<and> listError (clientset ?j) KService = None \<and> listError (clientset ?j) KIngress = None"
    by code_simp
  have k2: "listError (clientset ?k) KDeployment = None \<and> listError (clientset ?k) KConfigMap = None
         \<and> listError (clientset ?k) KService = None \<and> listError (clientset ?k) KIngress = None"
    by code_simp
  have nj: "ViceNamespace ?j = ''vice-apps''" by code_simp
  have nk: "ViceNamespace ?k = []" by code_simp
  have swj: "sweepUpdates exampleExternals ?j KDeployment (clusterDeployments (clientset ?j))
             @ sweepUpdates exampleExternals ?j KConfigMap (clusterConfigMaps (clientset ?j))
             @ sweepUpdates exampleExternals ?j KService (clusterServices (clientset ?j))
             @ sweepUpdates exampleExternals ?j KIngress (clusterIngresses (clientset ?j))
       = [CallUpdate KDeployment ''vice-apps'' ''vice-abc123'' relabelledBaseLabels]"
    by code_simp
  have swk: "sweepUpdates exampleExternals ?k KDeployment (clusterDeployments (clientset ?k))
             @ sweepUpdates exampleExternals ?k KConfigMap (clusterConfigMaps (clientset ?k))
             @ sweepUpdates exampleExternals ?k KService (clusterServices (clientset ?k))
             @ sweepUpdates exampleExternals ?k KIngress (clusterIngresses (clientset ?k))
       = [CallUpdate KDeployment [] ''vice-abc123'' relabelledBaseLabels,
          CallUpdate KDeployment [] ''vice-elsewhere'' relabelledBaseLabels]"
    by code_simp
  have h1: "NewRequirementError exampleExternals ''subdomain'' = None" by code_simp
  have h2: "listError (clientset ?i) KDeployment = None \<and> listError (clientset ?i) KConfigMap = None
         \<and> listError (clientset ?i) KService = None \<and> listError (clientset ?i) KIngress = None"
    by code_simp
  note T = sweep_relabels_objects_lacking_subdomain [OF h1 h2]
  have sw: "sweepUpdates exampleExternals ?i KDeployment (clusterDeployments (clientset ?i))
             @ sweepUpdates exampleExternals ?i KConfigMap (clusterConfigMaps (clientset ?i))
             @ sweepUpdates exampleExternals ?i KService (clusterServices (clientset ?i))
             @ sweepUpdates exampleExternals ?i KIngress (clusterIngresses (clientset ?i))
       = [CallUpdate KDeployment ''vice-apps'' ''vice-abc123''
            [(''app-type'', ''interactive''), (''external-id'', ''abc123''),
             (''user-id'', ''uid-alice''), (''subdomain'', ''auid-aliceabc123''),
             (''login-ip'', ''10.0.0.7''), (''analysis-id'', ''analysis-1'')]]"
    by code_simp
  have u: "filter isUpdate (snd (ApplyAsyncLabels exampleExternals ?i))
       = [CallUpdate KDeployment ''vice-apps'' ''vice-abc123''
            [(''app-type'', ''interactive''), (''external-id'', ''abc123''),
             (''user-id'', ''uid-alice''), (''subdomain'', ''auid-aliceabc123''),
             (''login-ip'', ''10.0.0.7''), (''analysis-id'', ''analysis-1'')]]"
    using T sw by simp
  have b: "map_of baseLabels ''subdomain'' = None" "map_of baseLabels ''login-ip'' = None"
    "map_of baseLabels ''analysis-id'' = None"
    "map_of baseLabels ''external-id'' = Some ''abc123''"
    "map_of baseLabels ''user-id'' = Some ''uid-alice''"
    by (simp_all add: baseLabels_def)
  have a: "GetUserIP (apps ?i) ''uid-alice'' = Inr ''10.0.0.7''"
    "GetAnalysisIDByExternalID (apps ?i) ''abc123'' = Inr ''analysis-1''"
    by code_simp+
  from T b a have l:
    "map_of (relabelled exampleExternals ?i baseLabels) ''subdomain''
       = Some (IngressName exampleExternals ''uid-alice'' ''abc123'')"
    "map_of (relabelled exampleExternals ?i baseLabels) ''login-ip'' = Some ''10.0.0.7''"
    "map_of (relabelled exampleExternals ?i baseLabels) ''analysis-id'' = Some ''analysis-1''"
    by blast+
  have uj: "filter isUpdate (snd (ApplyAsyncLabels exampleExternals ?j))
       = [CallUpdate KDeployment ''vice-apps'' ''vice-abc123'' relabelledBaseLabels]"
    using sweep_relabels_objects_lacking_subdomain [OF h1 j2] swj by simp
  have uk: "filter isUpdate (snd (ApplyAsyncLabels exampleExternals ?k))
       = [CallUpdate KDeployment [] ''vice-abc123'' relabelledBaseLabels,
          CallUpdate KDeployment [] ''vice-elsewhere'' relabelledBaseLabels]"
    using sweep_relabels_objects_lacking_subdomain [OF h1 k2] swk by simp
  have first: "NewRequirementError exampleExternals ''subdomain'' = None
   \<and> listError (clientset (exampleIncluster clusterToSweep)) KDeployment = None
   \<and> listError (clientset (exampleIncluster clusterToSweep)) KConfigMap = None
   \<and> listError (clientset (exampleIncluster clusterToSweep)) KService = None
   \<and> listError (clientset (exampleIncluster clusterToSweep)) KIngress = None
   \<and> filter isUpdate (snd (ApplyAsyncLabels exampleExternals (exampleIncluster clusterToSweep)))
       = [CallUpdate KDeployment ''vice-apps'' ''vice-abc123''
            [(''app-type'', ''interactive''), (''external-id'', ''abc123''),
             (''user-id'', ''uid-alice''), (''subdomain'', ''auid-aliceabc123''),
             (''login-ip'', ''10.0.0.7''), (''analysis-id'', ''analysis-1'')]]
   \<and> map_of baseLabels ''subdomain'' = None \<and> map_of baseLabels ''login-ip'' = None
   \<and> map_of baseLabels ''analysis-id'' = None
   \<and> map_of baseLabels ''external-id'' = Some ''abc123''
   \<and> map_of baseLabels ''user-id'' = Some ''uid-alice''
   \<and> map_of (relabelled exampleExternals (exampleIncluster clusterToSweep) baseLabels) ''subdomain''
       = Some (IngressName exampleExternals ''uid-alice'' ''abc123'')
   \<and> map_of (relabelled exampleExternals (exampleIncluster clusterToSweep) baseLabels) ''login-ip''
       = Some ''10.0.0.7''
   \<and> map_of (relabelled exampleExternals (exampleIncluster clusterToSweep) baseLabels) ''analysis-id''
       = Some ''analysis-1''"
    using h1 h2 u b l by simp
  show ?thesis
    using first two j2 nj uj k2 nk uk by (simp only: simp_thms)
qed

text \<open>
  C5 as stated fails: a config map that bears \<open>app-type=interactive\<close> and has \<open>subdomain\<close>
  but neither \<open>login-ip\<close> nor \<open>analysis-id\<close> is not visited, and neither is a pod that
  lacks all three labels: the sweep makes its four List calls, with the selector
  \<open>app-type=interactive,!subdomain\<close>, and no Update.
\<close>

theorem sweep_counterexample:
  "map_of halfLabels ''app-type'' = Some ''interactive''
   \<and> map_of halfLabels ''login-ip'' = None
   \<and> map_of halfLabels ''analysis-id'' = None
   \<and> map (\<lambda>cm. (Name cm, Labels cm)) (clusterConfigMaps clusterHalfLabelled)
       = [(''excludes-abc123'', halfLabels)]
   \<and> map_of baseLabels ''app-type'' = Some ''interactive''
   \<and> map_of baseLabels ''subdomain'' = None
   \<and> map (\<lambda>pod. (Name pod, Labels pod)) (clusterPods clusterHalfLabelled)
       = [(''vice-abc123-pod'', baseLabels)]
   \<and> ApplyAsyncLabels exampleExternals (exampleIncluster clusterHalfLabelled)
       = ([], [CallList KDeployment ''vice-apps'' sweepOptions,
               CallList KConfigMap ''vice-apps'' sweepOptions,
               CallList KService ''vice-apps'' sweepOptions,
               CallList KIngress ''vice-apps'' sweepOptions])"
  by code_simp

section \<open>Properties of the status publisher\<close>

text \<open>Once the POST has been performed, \<open>postStatus\<close> returns nil whatever the status code
  of the response is: on the status-code branch the wrapped \<open>err\<close> is nil, and \<open>Wrapf\<close>
  of nil is nil.\<close>

lemma postStatus_after_response:
  assumes "url_Parse lib (statusURL j) = Inr u0"
    and "json_MarshalStatus lib \<lparr>Hostname = hostname lib, State = jobState, MessageText = msg\<rparr> = Inr js"
    and "http_NewRequestError lib ''POST'' (URL_String lib (u0\<lparr>Path := path_Join lib jobID ''status''\<rparr>)) js = None"
    and "httpClient_Do lib \<lparr>Method = ''POST'',
            RequestURL = URL_String lib (u0\<lparr>Path := path_Join lib jobID ''status''\<rparr>),
            RequestBody = js, Header = [(''content-type'', ''application/json'')]\<rparr> = Inr response"
  shows "postStatus lib j jobID msg jobState = None"
  using assms by (simp add: postStatus_def Let_def Wrapf_def)

text \<open>
  C2 says that a response code outside \<open>[200, 400)\<close> makes \<open>Fail\<close>, \<open>Success\<close> and
  \<open>Running\<close> return an error. Against a listener that answers every POST with 500, each of
  the three returns nil.
\<close>

theorem status_code_500_reported_as_success:
  "httpClient_Do (exampleHTTP 500)
     \<lparr>Method = ''POST'', RequestURL = ''http://job-status-listener/abc123/status'',
      RequestBody = ''{Failed}'', Header = [(''content-type'', ''application/json'')]\<rparr>
     = Inr \<lparr>StatusCode = 500, BodyText = []\<rparr>
   \<and> Fail (exampleHTTP 500) examplePublisher ''abc123'' ''boom'' = None
   \<and> Success (exampleHTTP 500) examplePublisher ''abc123'' ''done'' = None
   \<and> Running (exampleHTTP 500) examplePublisher ''abc123'' ''ready'' = None"
  by code_simp

end
